theory Spec2Isabelle
  imports Complex_Main
begin

section \<open>Data model (models/index.js, database/schema.sql)\<close>

text \<open>
  Every table is a list of rows, in insertion order. Identifiers and quantities are the
  INTEGER columns of the schema, modelled as unbounded integers; a nullable column is an
  \<open>option\<close>. Dates (DATEONLY) are day numbers. Only the columns that the two route
  files read or write are kept.
\<close>

record warehouse =
  w_id :: int
  w_companyId :: int
  w_name :: string
  w_isActive :: bool

record supplier =
  s_id :: int
  s_name :: string
  s_contactEmail :: "string option"
  s_leadTimeDays :: "int option"
  s_isActive :: bool

record category =
  c_id :: int
  c_name :: string
  c_lowStockThreshold :: "int option"

record product =
  p_id :: int
  p_companyId :: int
  p_categoryId :: "int option"
  p_supplierId :: "int option"
  p_name :: string
  p_sku :: string
  p_description :: "string option"
  p_price :: rat
  p_cost :: "rat option"
  p_weight :: "rat option"
  p_dimensions :: "string option"
  p_lowStockThreshold :: "int option"
  p_isBundle :: bool
  p_isActive :: bool

record inventory =
  i_id :: int
  i_productId :: int
  i_warehouseId :: int
  i_quantity :: int
  i_reservedQuantity :: int

datatype movement_type = MoveIn | MoveOut | Adjustment | Transfer

record movement =
  m_id :: int
  m_inventoryId :: int
  m_movementType :: movement_type
  m_quantity :: int
  m_previousQuantity :: int
  m_newQuantity :: int
  m_referenceId :: "string option"
  m_referenceType :: "string option"
  m_notes :: "string option"
  m_userId :: "int option"

record sale =
  sd_productId :: int
  sd_warehouseId :: int
  sd_quantitySold :: int
  sd_saleDate :: int

text \<open>
  The stored state: the tables, and the order in which the storage engine returns rows
  that an ORDER BY leaves tied. SQL does not determine that order and it can differ from
  one statement to the next, so it is a component of the state and no function of the
  tables: \<open>row_order db limit offset\<close> ranks the rows (by product and warehouse) of the
  alert query run with that LIMIT and OFFSET, \<open>group_order db\<close> the groups (by category
  name, NULL for none) of the summary query; tied rows come out by ascending rank.
\<close>

record store =
  warehouses :: "warehouse list"
  suppliers :: "supplier list"
  categories :: "category list"
  products :: "product list"
  inventories :: "inventory list"
  movements :: "movement list"
  sales :: "sale list"
  row_order :: "nat \<Rightarrow> nat \<Rightarrow> int \<times> int \<Rightarrow> nat"
  group_order :: "string option \<Rightarrow> nat"

text \<open>The caller identity that the \<open>auth\<close> middleware attaches to the request.\<close>

record user =
  u_id :: int
  u_companyId :: int

section \<open>Numbers of the runtime\<close>

text \<open>
  A Number of JavaScript is an IEEE 754 double: a sign, a significand of 53 bits and a
  binary exponent. A finite Number is modelled by the rational it denotes, and every
  arithmetic operation of the handlers by the exact operation followed by \<open>double\<close>, the
  rounding to the nearest Number, ties going to the even significand.

  \<open>bits n\<close> is the length of \<open>n\<close> in binary, \<open>ilog2 x\<close> the binary exponent of a positive
  \<open>x\<close> (the \<open>e\<close> with \<open>2^e \<le> x < 2^(e+1)\<close>). Below \<open>2^(-1022)\<close> the Numbers are the multiples
  of \<open>2^(-1074)\<close>. A value of magnitude \<open>2^1024 - 2^970\<close> or more rounds to an infinity,
  which is no rational: \<open>overflows\<close> recognises these values, and each use of \<open>double\<close>
  below says why its argument does not overflow or tests it.
\<close>

fun bits :: "nat \<Rightarrow> nat" where
  "bits n = (if n = 0 then 0 else Suc (bits (n div 2)))"

declare bits.simps [simp del]

definition pow2 :: "int \<Rightarrow> rat" where
  "pow2 e = (if 0 \<le> e then 2 ^ nat e else 1 / 2 ^ nat (- e))"

definition ilog2 :: "rat \<Rightarrow> int" where
  "ilog2 x =
     (if 1 \<le> x then int (bits (nat \<lfloor>x\<rfloor>)) - 1
      else (let j = int (bits (nat \<lfloor>1 / x\<rfloor>))
            in if x * pow2 (j - 1) = 1 then 1 - j else - j))"

definition round_even :: "rat \<Rightarrow> int" where
  "round_even x =
     (let f = \<lfloor>x\<rfloor>; r = x - of_int f
      in if r < 1 / 2 then f else if 1 / 2 < r then f + 1 else if even f then f else f + 1)"

definition double :: "rat \<Rightarrow> rat" where
  "double x =
     (if x = 0 then 0
      else (let e = max (ilog2 \<bar>x\<bar> - 52) (- 1074)
            in of_int (round_even (x / pow2 e)) * pow2 e))"

definition overflows :: "rat \<Rightarrow> bool" where
  "overflows x = (2 ^ 1024 - 2 ^ 970 \<le> \<bar>x\<bar>)"

section \<open>Request validation (createProductSchema)\<close>

text \<open>
  A request body is a parsed JSON object: keys with JSON values. A key that is absent
  reads as \<open>None\<close> (JavaScript's \<open>undefined\<close>).
\<close>

datatype jv = JNull | JBool bool | JNum rat | JStr string | JCompound

type_synonym body = "(string \<times> jv) list"

text \<open>One entry of Joi's \<open>error.details\<close>: the rule that failed and the key it failed on.\<close>

datatype violation =
    AnyRequired string
  | StringBase string
  | StringEmpty string
  | StringMin string nat
  | StringMax string nat
  | NumberBase string
  | NumberInfinity string
  | NumberUnsafe string
  | NumberPositive string
  | NumberInteger string
  | NumberMin string int
  | ObjectUnknown string

definition presence :: "string \<Rightarrow> bool \<Rightarrow> violation list" where
  "presence k required = (if required then [AnyRequired k] else [])"

definition string_rules :: "string \<Rightarrow> nat option \<Rightarrow> nat option \<Rightarrow> string \<Rightarrow> violation list" where
  "string_rules k minl maxl s =
     (case minl of None \<Rightarrow> [] | Some n \<Rightarrow> if length s < n then [StringMin k n] else []) @
     (case maxl of None \<Rightarrow> [] | Some n \<Rightarrow> if n < length s then [StringMax k n] else [])"

text \<open>
  \<open>Joi.string()\<close>: a value that is not a string fails the base check; the empty string is
  rejected unless \<open>.allow('')\<close> lists it, and an allowed value skips the rules.
\<close>

definition joi_string ::
  "string \<Rightarrow> bool \<Rightarrow> bool \<Rightarrow> nat option \<Rightarrow> nat option \<Rightarrow> jv option \<Rightarrow> violation list" where
  "joi_string k required allow_empty minl maxl v =
     (case v of
        None \<Rightarrow> presence k required
      | Some (JStr s) \<Rightarrow>
          if s = [] then (if allow_empty then [] else [StringEmpty k])
          else string_rules k minl maxl s
      | Some _ \<Rightarrow> [StringBase k])"

definition string_value :: "jv option \<Rightarrow> string option" where
  "string_value v = (case v of Some (JStr s) \<Rightarrow> Some s | _ \<Rightarrow> None)"

text \<open>
  \<open>Joi.number()\<close> with the default \<open>convert: true\<close>. \<open>JNum x\<close> is a number of the body whose
  numeral denotes \<open>x\<close>; the parser of the body reads it as the nearest Number, and Joi
  rejects an infinity. A string is converted when it is a numeral: that conversion is a
  function of the library and is a parameter \<open>rx\<close> here, giving the Number read. With
  \<open>.precision(2)\<close> the value is rounded to two decimals before the rules run, as
  \<open>Math.round(v * 100) / 100\<close> on Numbers: the product and the quotient are rounded to
  the nearest Number, \<open>Math.round\<close> is exact (the nearest integer, a half going up). The
  values that reach this rounding are at most \<open>max_safe_integer\<close>, so nothing overflows.
\<close>

datatype num_rule = Positive | Precision nat | Integer | Min int

definition is_infinity :: "jv \<Rightarrow> bool" where
  "is_infinity j = (case j of JNum x \<Rightarrow> overflows x | _ \<Rightarrow> False)"

definition number_base :: "(string \<Rightarrow> rat option) \<Rightarrow> jv \<Rightarrow> rat option" where
  "number_base rx j = (case j of JNum x \<Rightarrow> Some (double x) | JStr s \<Rightarrow> rx s | _ \<Rightarrow> None)"

definition math_round :: "rat \<Rightarrow> int" where
  "math_round x = \<lfloor>x + 1 / 2\<rfloor>"

fun apply_precision :: "num_rule list \<Rightarrow> rat \<Rightarrow> rat" where
  "apply_precision [] x = x"
| "apply_precision (Precision d # rs) x =
     double (of_int (math_round (double (x * 10 ^ d))) / 10 ^ d)"
| "apply_precision (_ # rs) x = apply_precision rs x"

definition is_integer :: "rat \<Rightarrow> bool" where
  "is_integer x = (of_int \<lfloor>x\<rfloor> = x)"

fun rule_error :: "string \<Rightarrow> rat \<Rightarrow> num_rule \<Rightarrow> violation list" where
  "rule_error k x Positive = (if 0 < x then [] else [NumberPositive k])"
| "rule_error k x (Precision d) = []"
| "rule_error k x Integer = (if is_integer x then [] else [NumberInteger k])"
| "rule_error k x (Min m) = (if of_int m \<le> x then [] else [NumberMin k m])"

definition max_safe_integer :: rat where
  "max_safe_integer = 9007199254740991"

definition joi_number ::
  "(string \<Rightarrow> rat option) \<Rightarrow> string \<Rightarrow> bool \<Rightarrow> num_rule list \<Rightarrow> jv option \<Rightarrow> violation list" where
  "joi_number rx k required rules v =
     (case v of
        None \<Rightarrow> presence k required
      | Some j \<Rightarrow>
          if is_infinity j then [NumberInfinity k]
          else
            (case number_base rx j of
               None \<Rightarrow> [NumberBase k]
             | Some x \<Rightarrow>
                 if max_safe_integer < \<bar>x\<bar> then [NumberUnsafe k]
                 else concat (map (rule_error k (apply_precision rules x)) rules)))"

definition number_value :: "(string \<Rightarrow> rat option) \<Rightarrow> num_rule list \<Rightarrow> jv option \<Rightarrow> rat option" where
  "number_value rx rules v =
     (case v of None \<Rightarrow> None
      | Some j \<Rightarrow> map_option (apply_precision rules) (number_base rx j))"

definition integer_value :: "(string \<Rightarrow> rat option) \<Rightarrow> jv option \<Rightarrow> int option" where
  "integer_value rx v = map_option floor (number_value rx [] v)"

text \<open>The keys of \<open>createProductSchema\<close>, in the order of the declaration.\<close>

definition schema_keys :: "string list" where
  "schema_keys = [''name'', ''sku'', ''description'', ''price'', ''cost'', ''weight'',
     ''dimensions'', ''categoryId'', ''supplierId'', ''lowStockThreshold'', ''warehouseId'',
     ''initialQuantity'']"

text \<open>
  All violations of a body against the schema: the keys of the schema in their order, then
  every key of the body that the schema does not declare (\<open>Joi.object\<close> rejects unknown keys).
\<close>

definition all_details :: "(string \<Rightarrow> rat option) \<Rightarrow> body \<Rightarrow> violation list" where
  "all_details rx b =
     joi_string ''name'' True False (Some 1) (Some 255) (map_of b ''name'') @
     joi_string ''sku'' True False (Some 1) (Some 100) (map_of b ''sku'') @
     joi_string ''description'' False True None None (map_of b ''description'') @
     joi_number rx ''price'' True [Positive, Precision 2] (map_of b ''price'') @
     joi_number rx ''cost'' False [Positive, Precision 2] (map_of b ''cost'') @
     joi_number rx ''weight'' False [Positive, Precision 2] (map_of b ''weight'') @
     joi_string ''dimensions'' False False None (Some 100) (map_of b ''dimensions'') @
     joi_number rx ''categoryId'' False [Integer, Positive] (map_of b ''categoryId'') @
     joi_number rx ''supplierId'' False [Integer, Positive] (map_of b ''supplierId'') @
     joi_number rx ''lowStockThreshold'' False [Integer, Min 0] (map_of b ''lowStockThreshold'') @
     joi_number rx ''warehouseId'' True [Integer, Positive] (map_of b ''warehouseId'') @
     joi_number rx ''initialQuantity'' True [Integer, Min 0] (map_of b ''initialQuantity'') @
     map ObjectUnknown (filter (\<lambda>k. k \<notin> set schema_keys) (map fst b))"

text \<open>The converted value that Joi returns; \<open>.default(10)\<close> fills in an absent threshold.\<close>

record product_input =
  in_name :: string
  in_sku :: string
  in_description :: "string option"
  in_price :: rat
  in_cost :: "rat option"
  in_weight :: "rat option"
  in_dimensions :: "string option"
  in_categoryId :: "int option"
  in_supplierId :: "int option"
  in_lowStockThreshold :: int
  in_warehouseId :: int
  in_initialQuantity :: int

definition or_else :: "'a option \<Rightarrow> 'a \<Rightarrow> 'a" where
  "or_else v d = (case v of None \<Rightarrow> d | Some x \<Rightarrow> x)"

definition converted :: "(string \<Rightarrow> rat option) \<Rightarrow> body \<Rightarrow> product_input" where
  "converted rx b =
     \<lparr> in_name = or_else (string_value (map_of b ''name'')) [],
       in_sku = or_else (string_value (map_of b ''sku'')) [],
       in_description = string_value (map_of b ''description''),
       in_price = or_else (number_value rx [Positive, Precision 2] (map_of b ''price'')) 0,
       in_cost = number_value rx [Positive, Precision 2] (map_of b ''cost''),
       in_weight = number_value rx [Positive, Precision 2] (map_of b ''weight''),
       in_dimensions = string_value (map_of b ''dimensions''),
       in_categoryId = integer_value rx (map_of b ''categoryId''),
       in_supplierId = integer_value rx (map_of b ''supplierId''),
       in_lowStockThreshold = or_else (integer_value rx (map_of b ''lowStockThreshold'')) 10,
       in_warehouseId = or_else (integer_value rx (map_of b ''warehouseId'')) 0,
       in_initialQuantity = or_else (integer_value rx (map_of b ''initialQuantity'')) 0 \<rparr>"

text \<open>
  \<open>schema.validate(value, options)\<close>. With \<open>abortEarly\<close> the validation stops at the first
  violation, so \<open>error.details\<close> holds that one alone; without it every violation is
  reported. The converted value is used only when there is no error.
\<close>

definition validate ::
  "bool \<Rightarrow> (string \<Rightarrow> rat option) \<Rightarrow> body \<Rightarrow> violation list + product_input" where
  "validate abortEarly rx b =
     (let ds = all_details rx b in
      if ds = [] then Inr (converted rx b)
      else Inl (if abortEarly then take 1 ds else ds))"

text \<open>
  The handler calls \<open>createProductSchema.validate(req.body)\<close> with no options, and
  \<open>abortEarly\<close> is \<open>true\<close> by default.
\<close>

definition createProductSchema_validate ::
  "(string \<Rightarrow> rat option) \<Rightarrow> body \<Rightarrow> violation list + product_input" where
  "createProductSchema_validate rx b = validate True rx b"

section \<open>Persistence layer as the handlers use it\<close>

text \<open>
  Every awaited call on the persistence layer may raise. Which call raises, and what, is
  decided outside the handler (constraint checks of the storage engine, a concurrent
  transaction that committed first, a dropped connection), so it is an argument \<open>faults\<close>
  of the model: \<open>faults c = Some e\<close> says that call \<open>c\<close> raises \<open>e\<close> in this run. The
  handler tells errors apart by \<open>error.name\<close> only.
\<close>

datatype db_error = SequelizeUniqueConstraintError | SequelizeForeignKeyConstraintError | OtherError

datatype db_call =
  WarehouseFindOne | ProductFindOne | ProductCreate | InventoryFindOne | InventoryCreate |
  InventoryMovementCreate | TransactionCommit

type_synonym faults = "db_call \<Rightarrow> db_error option"

text \<open>
  An unmanaged transaction: reads and writes that carry \<open>{ transaction }\<close> work on the
  pending state; \<open>commit\<close> makes the pending state the stored one, \<open>rollback\<close> leaves the
  stored state as it was when the transaction began. The transaction object records
  that it is \<open>finished\<close> as soon as a commit has been attempted, whether the commit went
  through or raised; \<open>commit\<close> and \<open>rollback\<close> on a finished transaction raise an error
  (\<open>Transaction cannot be rolled back because it has been finished\<close>). A commit that
  raises leaves the stored state as it was. An exception carries the transaction object
  as it is when the exception is raised, since the \<open>catch\<close> block works on that object.
  Opening a transaction is taken not to raise.
\<close>

record txn =
  snapshot :: store
  pending :: store
  finished :: bool

definition sequelize_transaction :: "store \<Rightarrow> txn" where
  "sequelize_transaction db = \<lparr> snapshot = db, pending = db, finished = False \<rparr>"

definition rollback :: "txn \<Rightarrow> db_error \<times> txn + store" where
  "rollback t = (if finished t then Inl (OtherError, t) else Inr (snapshot t))"

definition commit :: "faults \<Rightarrow> txn \<Rightarrow> db_error \<times> txn + store" where
  "commit f t =
     (if finished t then Inl (OtherError, t)
      else case f TransactionCommit of
             Some e \<Rightarrow> Inl (e, t\<lparr>finished := True\<rparr>)
           | None \<Rightarrow> Inr (pending t))"

definition findOne :: "faults \<Rightarrow> db_call \<Rightarrow> ('r \<Rightarrow> bool) \<Rightarrow> 'r list \<Rightarrow> db_error + 'r option" where
  "findOne f c wh rows = (case f c of Some e \<Rightarrow> Inl e | None \<Rightarrow> Inr (find wh rows))"

text \<open>\<open>AUTO_INCREMENT\<close>: an identifier above every identifier of the table.\<close>

definition next_id :: "int list \<Rightarrow> int" where
  "next_id ids = fold max ids 0 + 1"

definition Product_create :: "faults \<Rightarrow> product \<Rightarrow> txn \<Rightarrow> db_error + product \<times> txn" where
  "Product_create f row t =
     (case f ProductCreate of
        Some e \<Rightarrow> Inl e
      | None \<Rightarrow>
          (let p = row\<lparr>p_id := next_id (map p_id (products (pending t)))\<rparr>
           in Inr (p, t\<lparr>pending := (pending t)\<lparr>products := products (pending t) @ [p]\<rparr>\<rparr>)))"

definition Inventory_create :: "faults \<Rightarrow> inventory \<Rightarrow> txn \<Rightarrow> db_error + inventory \<times> txn" where
  "Inventory_create f row t =
     (case f InventoryCreate of
        Some e \<Rightarrow> Inl e
      | None \<Rightarrow>
          (let i = row\<lparr>i_id := next_id (map i_id (inventories (pending t)))\<rparr>
           in Inr (i, t\<lparr>pending := (pending t)\<lparr>inventories := inventories (pending t) @ [i]\<rparr>\<rparr>)))"

definition InventoryMovement_create :: "faults \<Rightarrow> movement \<Rightarrow> txn \<Rightarrow> db_error + movement \<times> txn" where
  "InventoryMovement_create f row t =
     (case f InventoryMovementCreate of
        Some e \<Rightarrow> Inl e
      | None \<Rightarrow>
          (let m = row\<lparr>m_id := next_id (map m_id (movements (pending t)))\<rparr>
           in Inr (m, t\<lparr>pending := (pending t)\<lparr>movements := movements (pending t) @ [m]\<rparr>\<rparr>)))"

text \<open>\<open>product.id.toString()\<close>: the decimal numeral of an integer.\<close>

fun digits :: "nat \<Rightarrow> string" where
  "digits n = (if n < 10 then [char_of (48 + n)] else digits (n div 10) @ [char_of (48 + n mod 10)])"

definition toString :: "int \<Rightarrow> string" where
  "toString n = (if n < 0 then CHR ''-'' # digits (nat (- n)) else digits (nat n))"

section \<open>POST /api/products (routes/products.js)\<close>

datatype response =
    Created int string string rat int int
  | ValidationFailed "violation list"
  | InvalidWarehouse
  | SkuAlreadyExists string
  | InventoryAlreadyExists
  | DuplicateEntry
  | InvalidReference
  | InternalServerError
  | Unanswered

text \<open>
  The status code of a response. \<open>Unanswered\<close> is the run in which the handler's promise
  is rejected before any response is sent: no status line goes out, which 0 stands for.
\<close>

fun status :: "response \<Rightarrow> nat" where
  "status (Created _ _ _ _ _ _) = 201"
| "status (ValidationFailed _) = 400"
| "status InvalidWarehouse = 400"
| "status (SkuAlreadyExists _) = 409"
| "status InventoryAlreadyExists = 409"
| "status DuplicateEntry = 409"
| "status InvalidReference = 400"
| "status InternalServerError = 500"
| "status Unanswered = 0"

text \<open>The row handed to \<open>Product.create\<close> (the identifier is assigned by the table).\<close>

definition new_product :: "user \<Rightarrow> product_input \<Rightarrow> product" where
  "new_product u v =
     \<lparr> p_id = 0, p_companyId = u_companyId u, p_categoryId = in_categoryId v,
       p_supplierId = in_supplierId v, p_name = in_name v, p_sku = in_sku v,
       p_description = in_description v, p_price = in_price v, p_cost = in_cost v,
       p_weight = in_weight v, p_dimensions = in_dimensions v,
       p_lowStockThreshold = Some (in_lowStockThreshold v), p_isBundle = False,
       p_isActive = True \<rparr>"

definition new_inventory :: "product \<Rightarrow> product_input \<Rightarrow> inventory" where
  "new_inventory p v =
     \<lparr> i_id = 0, i_productId = p_id p, i_warehouseId = in_warehouseId v,
       i_quantity = in_initialQuantity v, i_reservedQuantity = 0 \<rparr>"

definition new_movement :: "user \<Rightarrow> product \<Rightarrow> inventory \<Rightarrow> product_input \<Rightarrow> movement" where
  "new_movement u p i v =
     \<lparr> m_id = 0, m_inventoryId = i_id i, m_movementType = MoveIn,
       m_quantity = in_initialQuantity v, m_previousQuantity = 0,
       m_newQuantity = in_initialQuantity v, m_referenceId = Some (toString (p_id p)),
       m_referenceType = Some ''initial_stock'',
       m_notes = Some ''Initial stock entry for new product'', m_userId = Some (u_id u) \<rparr>"

text \<open>
  \<open>await transaction.rollback(); return res.status(...).json(...)\<close>: the early returns of
  the \<open>try\<close> block.
\<close>

definition rollback_and_send :: "response \<Rightarrow> txn \<Rightarrow> db_error \<times> txn + response \<times> store" where
  "rollback_and_send r t = (case rollback t of Inl e \<Rightarrow> Inl e | Inr db' \<Rightarrow> Inr (r, db'))"

text \<open>
  The body of the \<open>try\<close> block. \<open>Inl (e, t')\<close> is an exception \<open>e\<close> that reaches the
  \<open>catch\<close>, with the transaction object as it then is; \<open>Inr (r, db')\<close> is the response
  sent and the stored state the block leaves.
\<close>

definition try_block ::
  "faults \<Rightarrow> (string \<Rightarrow> rat option) \<Rightarrow> user \<Rightarrow> body \<Rightarrow> txn \<Rightarrow>
     db_error \<times> txn + response \<times> store" where
  "try_block f rx u b t =
     (case createProductSchema_validate rx b of
        Inl details \<Rightarrow> rollback_and_send (ValidationFailed details) t
      | Inr v \<Rightarrow>
     (case findOne f WarehouseFindOne
             (\<lambda>w. w_id w = in_warehouseId v \<and> w_companyId w = u_companyId u \<and> w_isActive w)
             (warehouses (pending t)) of
        Inl e \<Rightarrow> Inl (e, t)
      | Inr None \<Rightarrow> rollback_and_send InvalidWarehouse t
      | Inr (Some warehouse) \<Rightarrow>
     (case findOne f ProductFindOne (\<lambda>p. p_sku p = in_sku v) (products (pending t)) of
        Inl e \<Rightarrow> Inl (e, t)
      | Inr (Some existingProduct) \<Rightarrow> rollback_and_send (SkuAlreadyExists (in_sku v)) t
      | Inr None \<Rightarrow>
     (case Product_create f (new_product u v) t of
        Inl e \<Rightarrow> Inl (e, t)
      | Inr (product, t1) \<Rightarrow>
     (case findOne f InventoryFindOne
             (\<lambda>i. i_productId i = p_id product \<and> i_warehouseId i = in_warehouseId v)
             (inventories (pending t1)) of
        Inl e \<Rightarrow> Inl (e, t1)
      | Inr (Some existingInventory) \<Rightarrow> rollback_and_send InventoryAlreadyExists t1
      | Inr None \<Rightarrow>
     (case Inventory_create f (new_inventory product v) t1 of
        Inl e \<Rightarrow> Inl (e, t1)
      | Inr (inventory, t2) \<Rightarrow>
     (case InventoryMovement_create f (new_movement u product inventory v) t2 of
        Inl e \<Rightarrow> Inl (e, t2)
      | Inr (movement, t3) \<Rightarrow>
     (case commit f t3 of
        Inl e \<Rightarrow> Inl e
      | Inr db' \<Rightarrow>
          Inr (Created (p_id product) (p_name product) (p_sku product) (p_price product)
                 (in_warehouseId v) (in_initialQuantity v), db')))))))))"

text \<open>
  The \<open>catch\<close> block first awaits \<open>transaction.rollback()\<close> and then chooses the response
  from \<open>error.name\<close>. When that rollback raises (the transaction is finished: the
  exception came from the commit), the rest of the block does not run, the promise of the
  handler is rejected and no response is sent.
\<close>

fun catch_response :: "db_error \<Rightarrow> response" where
  "catch_response SequelizeUniqueConstraintError = DuplicateEntry"
| "catch_response SequelizeForeignKeyConstraintError = InvalidReference"
| "catch_response OtherError = InternalServerError"

definition create_product ::
  "faults \<Rightarrow> (string \<Rightarrow> rat option) \<Rightarrow> user \<Rightarrow> body \<Rightarrow> store \<Rightarrow> response \<times> store" where
  "create_product f rx u b db =
     (let transaction = sequelize_transaction db in
      case try_block f rx u b transaction of
        Inr r \<Rightarrow> r
      | Inl (error, t) \<Rightarrow>
          (case rollback t of
             Inl rollback_error \<Rightarrow> (Unanswered, snapshot t)
           | Inr db' \<Rightarrow> (catch_response error, db')))"

section \<open>GET low-stock alerts of a company (routes/alerts.js)\<close>

text \<open>
  The queries are evaluated as SQL evaluates them: the FROM clause is the nested loop of
  its joins, WHERE filters the joined rows, the select list projects, DISTINCT removes
  equal rows, ORDER BY sorts and LIMIT/OFFSET cut. A LEFT JOIN keeps a row that has no
  partner, with the partner's columns NULL.

  Numbers: the storage engine computes SUM and AVG of integers exactly, as DECIMAL
  values, and returns an average with four decimals; the handler reads that numeral with
  \<open>parseFloat\<close> and computes on Numbers.
\<close>

definition left_join :: "'a list \<Rightarrow> 'a option list" where
  "left_join partners = (if partners = [] then [None] else map Some partners)"

type_synonym joined = "product \<times> inventory \<times> warehouse \<times> category option"

text \<open>
  \<open>FROM products p INNER JOIN inventory i ON p.id = i.product_id
  INNER JOIN warehouses w ON i.warehouse_id = w.id
  LEFT JOIN product_categories pc ON p.category_id = pc.id\<close>
\<close>

definition from_clause :: "store \<Rightarrow> joined list" where
  "from_clause db =
     [(p, i, w, pc).
        p \<leftarrow> products db,
        i \<leftarrow> inventories db, p_id p = i_productId i,
        w \<leftarrow> warehouses db, i_warehouseId i = w_id w,
        pc \<leftarrow> left_join [c \<leftarrow> categories db. p_categoryId p = Some (c_id c)]]"

text \<open>The alert query adds \<open>LEFT JOIN suppliers s ON p.supplier_id = s.id\<close>.\<close>

definition from_clause_suppliers :: "store \<Rightarrow> (joined \<times> supplier option) list" where
  "from_clause_suppliers db =
     [(j, s).
        j \<leftarrow> from_clause db,
        s \<leftarrow> left_join [s \<leftarrow> suppliers db. p_supplierId (fst j) = Some (s_id s)]]"

definition coalesce3 :: "int option \<Rightarrow> int option \<Rightarrow> int \<Rightarrow> int" where
  "coalesce3 a b d = (case a of Some x \<Rightarrow> x | None \<Rightarrow> (case b of Some y \<Rightarrow> y | None \<Rightarrow> d))"

definition category_threshold :: "category option \<Rightarrow> int option" where
  "category_threshold pc = (case pc of None \<Rightarrow> None | Some c \<Rightarrow> c_lowStockThreshold c)"

definition threshold :: "product \<Rightarrow> category option \<Rightarrow> int" where
  "threshold p pc = coalesce3 (p_lowStockThreshold p) (category_threshold pc) 10"

definition current_stock :: "inventory \<Rightarrow> int" where
  "current_stock i = i_quantity i - i_reservedQuantity i"

text \<open>
  \<open>FROM sales_data sd WHERE sd.product_id = p.id AND sd.warehouse_id = w.id
  AND sd.sale_date >= :thirtyDaysAgo\<close>
\<close>

definition sales_since :: "store \<Rightarrow> int \<Rightarrow> int \<Rightarrow> int \<Rightarrow> sale list" where
  "sales_since db product_id warehouse_id thirtyDaysAgo =
     [sd \<leftarrow> sales db. sd_productId sd = product_id \<and> sd_warehouseId sd = warehouse_id \<and>
        thirtyDaysAgo \<le> sd_saleDate sd]"

definition has_recent_sales :: "store \<Rightarrow> int \<Rightarrow> int \<Rightarrow> int \<Rightarrow> bool" where
  "has_recent_sales db product_id warehouse_id thirtyDaysAgo =
     (sales_since db product_id warehouse_id thirtyDaysAgo \<noteq> [])"

definition where_clause :: "int \<Rightarrow> int \<Rightarrow> store \<Rightarrow> joined \<Rightarrow> bool" where
  "where_clause companyId thirtyDaysAgo db j =
     (case j of (p, i, w, pc) \<Rightarrow>
        p_companyId p = companyId \<and> p_isActive p \<and> w_isActive w \<and> w_companyId w = companyId \<and>
        current_stock i \<le> threshold p pc \<and>
        has_recent_sales db (p_id p) (w_id w) thirtyDaysAgo)"

text \<open>\<open>SELECT SUM(sd.quantity_sold) AS total_sold ... GROUP BY sd.sale_date\<close>\<close>

definition daily_sales :: "sale list \<Rightarrow> int list" where
  "daily_sales rows =
     map (\<lambda>d. sum_list (map sd_quantitySold [sd \<leftarrow> rows. sd_saleDate sd = d]))
       (remdups (map sd_saleDate rows))"

text \<open>
  AVG over no rows is NULL. The average of integers (of a SUM of integers, or of a
  difference of integer columns) is a DECIMAL whose scale is that of the argument, 0,
  plus \<open>div_precision_increment\<close>, 4 by default: the quotient rounded to four decimals,
  a half going away from zero.
\<close>

definition decimal4 :: "rat \<Rightarrow> rat" where
  "decimal4 x =
     (if x < 0 then - (of_int \<lfloor>- x * 10000 + 1 / 2\<rfloor> / 10000)
      else of_int \<lfloor>x * 10000 + 1 / 2\<rfloor> / 10000)"

definition sql_avg :: "int list \<Rightarrow> rat option" where
  "sql_avg xs =
     (if xs = [] then None
      else Some (decimal4 (of_int (sum_list xs) / of_int (int (length xs)))))"

definition avg_daily_sales :: "store \<Rightarrow> int \<Rightarrow> int \<Rightarrow> int \<Rightarrow> rat" where
  "avg_daily_sales db product_id warehouse_id thirtyDaysAgo =
     or_else (sql_avg (daily_sales (sales_since db product_id warehouse_id thirtyDaysAgo))) 0"

record low_stock_row =
  r_product_id :: int
  r_product_name :: string
  r_sku :: string
  r_product_threshold :: "int option"
  r_category_threshold :: "int option"
  r_warehouse_id :: int
  r_warehouse_name :: string
  r_quantity :: int
  r_reserved_quantity :: int
  r_current_stock :: int
  r_threshold :: int
  r_supplier_id :: "int option"
  r_supplier_name :: "string option"
  r_supplier_contact_email :: "string option"
  r_supplier_lead_time :: "int option"
  r_avg_daily_sales :: rat
  r_has_recent_sales :: bool

definition select_row :: "int \<Rightarrow> store \<Rightarrow> joined \<times> supplier option \<Rightarrow> low_stock_row" where
  "select_row thirtyDaysAgo db js =
     (case js of ((p, i, w, pc), s) \<Rightarrow>
        \<lparr> r_product_id = p_id p, r_product_name = p_name p, r_sku = p_sku p,
          r_product_threshold = p_lowStockThreshold p,
          r_category_threshold = category_threshold pc,
          r_warehouse_id = w_id w, r_warehouse_name = w_name w,
          r_quantity = i_quantity i, r_reserved_quantity = i_reservedQuantity i,
          r_current_stock = current_stock i, r_threshold = threshold p pc,
          r_supplier_id = map_option s_id s, r_supplier_name = map_option s_name s,
          r_supplier_contact_email = Option.bind s s_contactEmail,
          r_supplier_lead_time = Option.bind s s_leadTimeDays,
          r_avg_daily_sales = avg_daily_sales db (p_id p) (w_id w) thirtyDaysAgo,
          r_has_recent_sales = has_recent_sales db (p_id p) (w_id w) thirtyDaysAgo \<rparr>)"

text \<open>The joined rows that pass the WHERE clause of \<open>lowStockQuery\<close>.\<close>

definition low_stock_candidates :: "int \<Rightarrow> int \<Rightarrow> store \<Rightarrow> (joined \<times> supplier option) list" where
  "low_stock_candidates companyId thirtyDaysAgo db =
     [js \<leftarrow> from_clause_suppliers db. where_clause companyId thirtyDaysAgo db (fst js)]"

text \<open>
  \<open>SELECT DISTINCT ... ORDER BY (i.quantity - i.reserved_quantity) ASC\<close>, in the statement
  that ends with the given LIMIT and OFFSET: the distinct rows by ascending stock, rows
  of equal stock in the order of the engine.
\<close>

definition low_stock_rows :: "int \<Rightarrow> int \<Rightarrow> nat \<Rightarrow> nat \<Rightarrow> store \<Rightarrow> low_stock_row list" where
  "low_stock_rows companyId thirtyDaysAgo limit offset db =
     sort_key r_current_stock
       (sort_key (\<lambda>r. row_order db limit offset (r_product_id r, r_warehouse_id r))
          (remdups (map (select_row thirtyDaysAgo db)
             (low_stock_candidates companyId thirtyDaysAgo db))))"

text \<open>\<open>LIMIT :limit OFFSET :offset\<close>\<close>

definition lowStockQuery :: "int \<Rightarrow> int \<Rightarrow> nat \<Rightarrow> nat \<Rightarrow> store \<Rightarrow> low_stock_row list" where
  "lowStockQuery companyId thirtyDaysAgo limit offset db =
     take limit (drop offset (low_stock_rows companyId thirtyDaysAgo limit offset db))"

text \<open>
  \<open>SELECT COUNT(DISTINCT CONCAT(p.id, '-', w.id))\<close> over the same joins (without the
  suppliers) and the same WHERE clause. The concatenation of two integer numerals around
  a dash determines both integers, so the distinct strings are counted as distinct pairs.
\<close>

definition countQuery :: "int \<Rightarrow> int \<Rightarrow> store \<Rightarrow> int" where
  "countQuery companyId thirtyDaysAgo db =
     int (length (remdups (map (\<lambda>(p, i, w, pc). (p_id p, w_id w))
       [j \<leftarrow> from_clause db. where_clause companyId thirtyDaysAgo db j])))"

record supplier_info =
  si_id :: int
  si_name :: "string option"
  si_contact_email :: "string option"
  si_lead_time_days :: "int option"

record alert =
  a_product_id :: int
  a_product_name :: string
  a_sku :: string
  a_warehouse_id :: int
  a_warehouse_name :: string
  a_current_stock :: int
  a_threshold :: int
  a_days_until_stockout :: int
  a_supplier :: "supplier_info option"

text \<open>
  \<open>parseFloat\<close> of the decimal numeral of a DECIMAL column: the nearest Number. A column
  of an integer type comes as the Number nearest to the integer (the integer itself up to
  \<open>2^53\<close> in magnitude). The columns are 32-bit and 64-bit integers and decimals of at
  most 65 digits, so none of these Numbers overflows.
\<close>

definition parseFloat :: "rat \<Rightarrow> rat" where
  "parseFloat x = double x"

definition number_of_column :: "int \<Rightarrow> rat" where
  "number_of_column n = double (of_int n)"

text \<open>
  The stockout estimate of the response mapping, from the columns \<open>current_stock\<close> and
  \<open>avg_daily_sales\<close> of a row. \<open>avgDailySales\<close> is \<open>parseFloat(row.avg_daily_sales) || 0\<close>,
  the quotient is rounded to the nearest Number, and \<open>Math.floor\<close> and \<open>Math.max\<close> are
  exact. A positive \<open>avgDailySales\<close> is at least \<open>0.0001\<close>, so the quotient does not
  overflow.
\<close>

definition days_until_stockout :: "int \<Rightarrow> rat \<Rightarrow> int" where
  "days_until_stockout stock avg =
     (let avgDailySales = parseFloat avg
      in max 0 (if 0 < avgDailySales
                then \<lfloor>double (number_of_column stock / avgDailySales)\<rfloor>
                else if 0 < number_of_column stock then 90 else 0))"

text \<open>\<open>row.supplier_id ? {...} : null\<close>: NULL and 0 are falsy.\<close>

definition supplier_of :: "low_stock_row \<Rightarrow> supplier_info option" where
  "supplier_of row =
     (case r_supplier_id row of
        None \<Rightarrow> None
      | Some n \<Rightarrow>
          if n = 0 then None
          else Some \<lparr> si_id = n, si_name = r_supplier_name row,
                      si_contact_email = r_supplier_contact_email row,
                      si_lead_time_days = r_supplier_lead_time row \<rparr>)"

definition to_alert :: "low_stock_row \<Rightarrow> alert" where
  "to_alert row =
     \<lparr> a_product_id = r_product_id row, a_product_name = r_product_name row,
       a_sku = r_sku row, a_warehouse_id = r_warehouse_id row,
       a_warehouse_name = r_warehouse_name row, a_current_stock = r_current_stock row,
       a_threshold = r_threshold row,
       a_days_until_stockout = days_until_stockout (r_current_stock row) (r_avg_daily_sales row),
       a_supplier = supplier_of row \<rparr>"

text \<open>
  The query parameters \<open>page\<close> and \<open>limit\<close> arrive as strings. They are taken here to be
  numerals of integers, given by the integer; an absent one takes the default of the
  destructuring. A Number that is not finite (an infinity or NaN) is \<open>None\<close>.

  \<open>to_number\<close> is the Number that an integer numeral converts to, in \<open>page - 1\<close>, in
  \<open>... * limit\<close>, in \<open>totalAlerts / limit\<close> and in \<open>parseInt\<close> of the string. The difference
  and the product are rounded to the nearest Number; what overflows, or has an operand
  that is not finite, is not finite.
\<close>

definition to_number :: "int \<Rightarrow> rat option" where
  "to_number n = (if overflows (of_int n) then None else Some (double (of_int n)))"

definition number_minus :: "rat option \<Rightarrow> rat option \<Rightarrow> rat option" where
  "number_minus a b =
     (case (a, b) of
        (Some x, Some y) \<Rightarrow> if overflows (x - y) then None else Some (double (x - y))
      | _ \<Rightarrow> None)"

definition number_times :: "rat option \<Rightarrow> rat option \<Rightarrow> rat option" where
  "number_times a b =
     (case (a, b) of
        (Some x, Some y) \<Rightarrow> if overflows (x * y) then None else Some (double (x * y))
      | _ \<Rightarrow> None)"

text \<open>
  \<open>parseInt(offset)\<close> is applied to a Number: the Number is printed and the integer at the
  head of the print is read. The print of a Number (\<open>Number::toString\<close>) has the fewest
  significant digits \<open>s\<close> that, followed by \<open>z\<close> zeros, still denote a decimal that rounds to
  that Number, and among such \<open>s\<close> the one nearest to the Number. An integer below \<open>2^53\<close>
  is printed with its own digits. From \<open>10^21\<close> on the print has the form \<open>d.ddde+n\<close>,
  of which \<open>parseInt\<close> reads the first digit only.

  \<open>shortest d\<close> searches \<open>s\<close> and \<open>z\<close> for a Number with the non-negative integer value \<open>d\<close>,
  trying one significant digit, then two, up to the 17 that identify every Number.
\<close>

fun ndigits :: "nat \<Rightarrow> nat" where
  "ndigits n = (if n < 10 then 1 else Suc (ndigits (n div 10)))"

declare ndigits.simps [simp del]

definition closest_first :: "int \<Rightarrow> nat \<Rightarrow> int list" where
  "closest_first d z =
     (let lo = d div 10 ^ z; hi = lo + 1;
          below = d - lo * 10 ^ z; above = hi * 10 ^ z - d
      in if below < above \<or> (below = above \<and> even lo) then [lo, hi] else [hi, lo])"

definition print_candidates :: "int \<Rightarrow> nat \<Rightarrow> int list" where
  "print_candidates d z = [s \<leftarrow> closest_first d z. double (of_int (s * 10 ^ z)) = of_int d]"

fun shortest_from :: "int \<Rightarrow> nat \<Rightarrow> nat \<Rightarrow> int \<times> nat" where
  "shortest_from d z 0 = (d, 0)"
| "shortest_from d z (Suc n) =
     (case print_candidates d z of s # rest \<Rightarrow> (s, z) | [] \<Rightarrow> shortest_from d (z - 1) n)"

definition shortest :: "int \<Rightarrow> int \<times> nat" where
  "shortest d = shortest_from d (ndigits (nat d) - 1) 17"

text \<open>The integer that the digits of the print denote, and the first of these digits.\<close>

definition printed_integer :: "int \<Rightarrow> int" where
  "printed_integer d = (if d < 2 ^ 53 then d else case shortest d of (s, z) \<Rightarrow> s * 10 ^ z)"

definition leading_digit :: "int \<Rightarrow> int" where
  "leading_digit d = (case shortest d of (s, z) \<Rightarrow> s div 10 ^ (ndigits (nat s) - 1))"

definition parseInt_number :: "rat option \<Rightarrow> rat option" where
  "parseInt_number x =
     (case x of
        None \<Rightarrow> None
      | Some v \<Rightarrow>
          (let d = \<lfloor>\<bar>v\<bar>\<rfloor>
           in if printed_integer d < 10 ^ 21
              then Some (sgn v * double (of_int (printed_integer d)))
              else Some (sgn v * of_int (leading_digit d))))"

text \<open>
  A replacement that is a Number is put into the statement as its print. The storage
  engine accepts as LIMIT and as OFFSET an unsigned integer literal of at most 64 bits:
  a sign, an exponent, \<open>NaN\<close> or \<open>Infinity\<close> make the statement fail.
\<close>

definition sql_unsigned :: "rat option \<Rightarrow> nat option" where
  "sql_unsigned x =
     (case x of
        None \<Rightarrow> None
      | Some v \<Rightarrow>
          if v < 0 then None
          else (let n = printed_integer \<lfloor>v\<rfloor>
                in if n < 10 ^ 21 \<and> n < 2 ^ 64 then Some (nat n) else None))"

text \<open>
  The payload. Its numeric fields are Numbers with integer values; one that is not
  finite is serialised as null.
\<close>

record alerts_payload =
  ap_alerts :: "alert list"
  ap_total_alerts :: int
  ap_current_page :: "int option"
  ap_total_pages :: "int option"
  ap_total_items :: int
  ap_limit :: "int option"

datatype alerts_response = Forbidden | DatabaseError | Alerts alerts_payload

text \<open>
  The handler; \<open>today\<close> is the day of the evaluation. A statement that the storage engine
  rejects raises \<open>SequelizeDatabaseError\<close>, which the \<open>catch\<close> answers with status 500.
  \<open>totalAlerts\<close>, a count of rows, is taken to be below \<open>2^53\<close> and so a Number as it is.
  \<open>Math.ceil\<close> is exact; \<open>totalAlerts / limit\<close> is not finite for a limit of 0.
\<close>

definition low_stock_alerts ::
  "user \<Rightarrow> int \<Rightarrow> int option \<Rightarrow> int option \<Rightarrow> int \<Rightarrow> store \<Rightarrow> alerts_response" where
  "low_stock_alerts u company_id page_param limit_param today db =
     (let page = to_number (or_else page_param 1);
          limit = to_number (or_else limit_param 100);
          offset = number_times (number_minus page (Some 1)) limit
      in if u_companyId u \<noteq> company_id then Forbidden
         else
           (let thirtyDaysAgo = today - 30
            in case (sql_unsigned limit, sql_unsigned (parseInt_number offset)) of
                 (Some sql_limit, Some sql_offset) \<Rightarrow>
                   (let results = lowStockQuery company_id thirtyDaysAgo sql_limit sql_offset db;
                        totalAlerts = countQuery company_id thirtyDaysAgo db
                    in Alerts
                         \<lparr> ap_alerts = map to_alert results,
                           ap_total_alerts = totalAlerts,
                           ap_current_page = map_option floor page,
                           ap_total_pages =
                             (case limit of
                                None \<Rightarrow> None
                              | Some l \<Rightarrow>
                                  if l = 0 then None
                                  else Some \<lceil>double (of_int totalAlerts / l)\<rceil>),
                           ap_total_items = totalAlerts,
                           ap_limit = map_option floor limit \<rparr>)
               | _ \<Rightarrow> DatabaseError))"

section \<open>GET low-stock summary of a company (routes/alerts.js)\<close>

record summary_row =
  sr_category_name :: string
  sr_alert_count :: int
  sr_out_of_stock_count :: int
  sr_critical_count :: int
  sr_avg_stock_level :: "rat option"

text \<open>\<open>GROUP BY pc.name\<close>: the name of the joined category, NULL when there is none.\<close>

definition group_key :: "joined \<Rightarrow> string option" where
  "group_key j = (case j of (p, i, w, pc) \<Rightarrow> map_option c_name pc)"

definition stock_of :: "joined \<Rightarrow> int" where
  "stock_of j = (case j of (p, i, w, pc) \<Rightarrow> current_stock i)"

definition aggregate :: "string option \<Rightarrow> joined list \<Rightarrow> summary_row" where
  "aggregate k grp =
     \<lparr> sr_category_name = or_else k ''Uncategorized'',
       sr_alert_count = int (length grp),
       sr_out_of_stock_count = sum_list (map (\<lambda>j. if stock_of j = 0 then 1 else 0) grp),
       sr_critical_count = sum_list (map (\<lambda>j. if stock_of j \<le> 5 then 1 else 0) grp),
       sr_avg_stock_level = sql_avg (map stock_of grp) \<rparr>"

definition summary_candidates :: "int \<Rightarrow> int \<Rightarrow> store \<Rightarrow> joined list" where
  "summary_candidates companyId thirtyDaysAgo db =
     [j \<leftarrow> from_clause db. where_clause companyId thirtyDaysAgo db j]"

text \<open>
  \<open>GROUP BY pc.name ORDER BY alert_count DESC\<close>: one row for each name, by descending
  count, groups of equal count in the order of the engine.
\<close>

definition summaryQuery :: "int \<Rightarrow> int \<Rightarrow> store \<Rightarrow> summary_row list" where
  "summaryQuery companyId thirtyDaysAgo db =
     (let rows = summary_candidates companyId thirtyDaysAgo db
      in sort_key (\<lambda>g. - sr_alert_count g)
           [aggregate k [j \<leftarrow> rows. group_key j = k].
              k \<leftarrow> sort_key (group_order db) (remdups (map group_key rows))])"

text \<open>
  \<open>Number.prototype.toFixed(2)\<close>, applied to a Number: the number with two decimals
  nearest to the value of the Number, the larger magnitude at a tie. The numeral it
  prints is modelled by the number it denotes.
\<close>

definition toFixed2 :: "rat \<Rightarrow> rat" where
  "toFixed2 x =
     (if x < 0 then - (of_int \<lfloor>- x * 100 + 1 / 2\<rfloor> / 100) else of_int \<lfloor>x * 100 + 1 / 2\<rfloor> / 100)"

record summary_item =
  si_category :: string
  si_total_alerts :: int
  si_out_of_stock :: int
  si_critical_alerts :: int
  si_average_stock_level :: "rat option"

definition to_summary_item :: "summary_row \<Rightarrow> summary_item" where
  "to_summary_item row =
     \<lparr> si_category = sr_category_name row,
       si_total_alerts = sr_alert_count row,
       si_out_of_stock = sr_out_of_stock_count row,
       si_critical_alerts = sr_critical_count row,
       si_average_stock_level =
         map_option (\<lambda>avg_stock_level. toFixed2 (parseFloat avg_stock_level))
           (sr_avg_stock_level row) \<rparr>"

datatype summary_response = SummaryForbidden | Summary "summary_item list"

definition low_stock_summary :: "user \<Rightarrow> int \<Rightarrow> int \<Rightarrow> store \<Rightarrow> summary_response" where
  "low_stock_summary u company_id today db =
     (if u_companyId u \<noteq> company_id then SummaryForbidden
      else Summary (map to_summary_item (summaryQuery company_id (today - 30) db)))"

section \<open>Notions of the specification\<close>

text \<open>The key that an entry of \<open>error.details\<close> is about, and the keys a body violates.\<close>

fun violated_key :: "violation \<Rightarrow> string" where
  "violated_key (AnyRequired k) = k"
| "violated_key (StringBase k) = k"
| "violated_key (StringEmpty k) = k"
| "violated_key (StringMin k n) = k"
| "violated_key (StringMax k n) = k"
| "violated_key (NumberBase k) = k"
| "violated_key (NumberInfinity k) = k"
| "violated_key (NumberUnsafe k) = k"
| "violated_key (NumberPositive k) = k"
| "violated_key (NumberInteger k) = k"
| "violated_key (NumberMin k m) = k"
| "violated_key (ObjectUnknown k) = k"

definition violated_fields :: "(string \<Rightarrow> rat option) \<Rightarrow> body \<Rightarrow> string list" where
  "violated_fields rx b = remdups (map violated_key (all_details rx b))"


text \<open>
  The effective threshold in the words of the specification: the product's own threshold
  when set, else the default of the linked category when set, else 10.
\<close>

definition effective_threshold :: "store \<Rightarrow> product \<Rightarrow> int" where
  "effective_threshold db p =
     (case p_lowStockThreshold p of
        Some t \<Rightarrow> t
      | None \<Rightarrow>
          (case p_categoryId p of
             None \<Rightarrow> 10
           | Some k \<Rightarrow>
               (case find (\<lambda>c. c_id c = k) (categories db) of
                  None \<Rightarrow> 10
                | Some c \<Rightarrow> (case c_lowStockThreshold c of Some t \<Rightarrow> t | None \<Rightarrow> 10))))"

text \<open>The conditions under which the specification lists a product in a warehouse.\<close>

definition qualifies :: "int \<Rightarrow> int \<Rightarrow> store \<Rightarrow> product \<Rightarrow> warehouse \<Rightarrow> inventory \<Rightarrow> bool" where
  "qualifies companyId today db p w i =
     (p_companyId p = companyId \<and> w_companyId w = companyId \<and> p_isActive p \<and> w_isActive w \<and>
      i_quantity i - i_reservedQuantity i \<le> effective_threshold db p \<and>
      (\<exists>sd \<in> set (sales db).
         sd_productId sd = p_id p \<and> sd_warehouseId sd = w_id w \<and> today - 30 \<le> sd_saleDate sd))"

text \<open>
  The average daily sales in the words of the specification: the units sold over the rows
  of the window, divided by the number of distinct sale dates among them; undefined when
  the window has no row.
\<close>

definition window_average :: "sale list \<Rightarrow> rat option" where
  "window_average rows =
     (if rows = [] then None
      else Some (of_int (sum_list (map sd_quantitySold rows)) /
                 of_int (int (card (sd_saleDate ` set rows)))))"

text \<open>
  The primary keys and the unique key of the schema: identifiers are unique in their
  table, and the inventory table has at most one row for a product and a warehouse.
\<close>

definition keys_unique :: "store \<Rightarrow> bool" where
  "keys_unique db =
     (distinct (map p_id (products db)) \<and> distinct (map w_id (warehouses db)) \<and>
      distinct (map c_id (categories db)) \<and> distinct (map s_id (suppliers db)) \<and>
      distinct (map (\<lambda>i. (i_productId i, i_warehouseId i)) (inventories db)))"

text \<open>The qualifying candidates of a company on a day, as the specification counts them.\<close>

definition qualifying :: "int \<Rightarrow> int \<Rightarrow> store \<Rightarrow> (product \<times> inventory \<times> warehouse) set" where
  "qualifying companyId today db =
     {(p, i, w). p \<in> set (products db) \<and> i \<in> set (inventories db) \<and>
        w \<in> set (warehouses db) \<and> i_productId i = p_id p \<and> i_warehouseId i = w_id w \<and>
        qualifies companyId today db p w i}"

definition row_key :: "low_stock_row \<Rightarrow> int \<times> int" where
  "row_key r = (r_product_id r, r_warehouse_id r)"

definition pair_key :: "joined \<Rightarrow> int \<times> int" where
  "pair_key j = (case j of (p, i, w, pc) \<Rightarrow> (p_id p, w_id w))"

definition triple_of :: "joined \<times> supplier option \<Rightarrow> product \<times> inventory \<times> warehouse" where
  "triple_of js = (case js of ((p, i, w, pc), s) \<Rightarrow> (p, i, w))"

text \<open>
  The rollup of one category in the words of the specification: the candidates whose
  category has the given name (no category: the label \<open>Uncategorized\<close>), how many they
  are, how many of them have no available stock, how many have at most 5, and the mean of
  their available stock rounded to two decimals.
\<close>

definition group_mean :: "joined list \<Rightarrow> rat" where
  "group_mean grp = of_int (sum_list (map stock_of grp)) / of_int (int (length grp))"

definition rollup :: "string option \<Rightarrow> joined list \<Rightarrow> summary_item" where
  "rollup k candidates =
     (let grp = [j \<leftarrow> candidates. group_key j = k]
      in \<lparr> si_category = (case k of None \<Rightarrow> ''Uncategorized'' | Some name \<Rightarrow> name),
           si_total_alerts = int (length grp),
           si_out_of_stock = int (length [j \<leftarrow> grp. stock_of j = 0]),
           si_critical_alerts = int (length [j \<leftarrow> grp. stock_of j \<le> 5]),
           si_average_stock_level =
             (if grp = [] then None else Some (toFixed2 (group_mean grp))) \<rparr>)"

section \<open>Example data\<close>

definition example_body :: body where
  "example_body =
     [(''name'', JStr ''Widget''), (''sku'', JStr ''W-1''), (''price'', JNum 10),
      (''warehouseId'', JNum 1), (''initialQuantity'', JNum 5)]"

definition example_user :: user where
  "example_user = \<lparr> u_id = 7, u_companyId = 1 \<rparr>"

definition example_store :: store where
  "example_store =
     \<lparr> warehouses = [\<lparr> w_id = 1, w_companyId = 1, w_name = ''Main'', w_isActive = True \<rparr>],
       suppliers = [], categories = [], products = [], inventories = [], movements = [],
       sales = [], row_order = (\<lambda>limit offset k. 0), group_order = (\<lambda>k. 0) \<rparr>"

definition no_faults :: faults where
  "no_faults = (\<lambda>c. None)"

definition no_conversion :: "string \<Rightarrow> rat option" where
  "no_conversion = (\<lambda>s. None)"

definition commit_fails :: faults where
  "commit_fails = (\<lambda>c. if c = TransactionCommit then Some OtherError else None)"



definition two_violations_body :: body where
  "two_violations_body =
     [(''name'', JStr ''Widget''), (''sku'', JStr ''W-1''), (''price'', JNum (- 1)),
      (''warehouseId'', JNum 1), (''initialQuantity'', JNum (- 5))]"

definition main_warehouse :: warehouse where
  "main_warehouse = \<lparr> w_id = 1, w_companyId = 1, w_name = ''Main'', w_isActive = True \<rparr>"

definition acme :: supplier where
  "acme = \<lparr> s_id = 1, s_name = ''Acme'', s_contactEmail = Some ''orders@acme.test'',
            s_leadTimeDays = Some 7, s_isActive = False \<rparr>"

definition electronics :: category where
  "electronics = \<lparr> c_id = 1, c_name = ''Electronics'', c_lowStockThreshold = Some 15 \<rparr>"

definition widget :: product where
  "widget = \<lparr> p_id = 1, p_companyId = 1, p_categoryId = Some 1, p_supplierId = Some 1,
            p_name = ''Widget'', p_sku = ''W-1'', p_description = None, p_price = 10,
            p_cost = None, p_weight = None, p_dimensions = None,
            p_lowStockThreshold = Some 20, p_isBundle = False, p_isActive = True \<rparr>"

definition gadget :: product where
  "gadget = \<lparr> p_id = 2, p_companyId = 1, p_categoryId = Some 1, p_supplierId = None,
            p_name = ''Gadget'', p_sku = ''G-1'', p_description = None, p_price = 5,
            p_cost = None, p_weight = None, p_dimensions = None,
            p_lowStockThreshold = None, p_isBundle = False, p_isActive = True \<rparr>"

definition gizmo :: product where
  "gizmo = \<lparr> p_id = 3, p_companyId = 1, p_categoryId = Some 1, p_supplierId = None,
            p_name = ''Gizmo'', p_sku = ''Z-1'', p_description = None, p_price = 7,
            p_cost = None, p_weight = None, p_dimensions = None,
            p_lowStockThreshold = Some 5, p_isBundle = False, p_isActive = True \<rparr>"

definition widget_stock :: inventory where
  "widget_stock = \<lparr> i_id = 1, i_productId = 1, i_warehouseId = 1, i_quantity = 10,
            i_reservedQuantity = 2 \<rparr>"

definition gadget_stock :: inventory where
  "gadget_stock = \<lparr> i_id = 2, i_productId = 2, i_warehouseId = 1, i_quantity = 3,
            i_reservedQuantity = 0 \<rparr>"

definition gizmo_stock :: inventory where
  "gizmo_stock = \<lparr> i_id = 3, i_productId = 3, i_warehouseId = 1, i_quantity = 4,
            i_reservedQuantity = 4 \<rparr>"

definition alerts_store :: store where
  "alerts_store =
     \<lparr> warehouses = [main_warehouse],
       suppliers = [acme],
       categories = [electronics],
       products = [widget, gadget, gizmo],
       inventories = [widget_stock, gadget_stock, gizmo_stock],
       movements = [],
       sales =
         [\<lparr> sd_productId = 1, sd_warehouseId = 1, sd_quantitySold = 2, sd_saleDate = 95 \<rparr>,
          \<lparr> sd_productId = 1, sd_warehouseId = 1, sd_quantitySold = 2, sd_saleDate = 96 \<rparr>,
          \<lparr> sd_productId = 1, sd_warehouseId = 1, sd_quantitySold = 1, sd_saleDate = 96 \<rparr>,
          \<lparr> sd_productId = 1, sd_warehouseId = 1, sd_quantitySold = 9, sd_saleDate = 10 \<rparr>,
          \<lparr> sd_productId = 2, sd_warehouseId = 1, sd_quantitySold = 3, sd_saleDate = 99 \<rparr>,
          \<lparr> sd_productId = 3, sd_warehouseId = 1, sd_quantitySold = 1, sd_saleDate = 70 \<rparr>],
       row_order = (\<lambda>limit offset k. 0), group_order = (\<lambda>k. 0) \<rparr>"

definition alerts_of :: "alerts_response \<Rightarrow> alert list" where
  "alerts_of r = (case r of Alerts payload \<Rightarrow> ap_alerts payload | _ \<Rightarrow> [])"

section \<open>Auxiliary facts\<close>

lemma floor_rat_numeral: "\<lfloor>numeral a / numeral b :: rat\<rfloor> = numeral a div numeral b"
  using floor_divide_of_int_eq[of "numeral a" "numeral b", where ?'a = rat] by simp

text \<open>Evaluation of \<open>double\<close> on numerals, and the facts about it used below.\<close>

lemma floor_rat_one_numeral: "\<lfloor>1 / numeral b :: rat\<rfloor> = 1 div numeral b"
  using floor_divide_of_int_eq[of 1 "numeral b", where ?'a = rat] by simp

lemma bits_0: "bits 0 = 0" by (simp add: bits.simps)
lemma bits_1: "bits (Suc 0) = Suc 0" by (simp add: bits.simps)
lemma bits_Bit0: "bits (numeral (Num.Bit0 n)) = Suc (bits (numeral n))"
  by (subst bits.simps) simp
lemma bits_Bit1: "bits (numeral (Num.Bit1 n)) = Suc (bits (numeral n))"
  by (subst bits.simps) simp
lemma bits_One: "bits (numeral Num.One) = Suc 0"
  by (simp add: bits.simps)

lemmas double_eval = double_def ilog2_def round_even_def pow2_def Let_def floor_rat_numeral
  floor_rat_one_numeral
  bits_0 bits_1 bits_Bit0 bits_Bit1 bits_One

lemma bits_bounds: "0 < n \<Longrightarrow> 2 ^ (bits n - 1) \<le> n \<and> n < 2 ^ bits n"
proof (induction n rule: bits.induct)
  case (1 n)
  show ?case
  proof (cases "n div 2 = 0")
    case True
    with 1 have "n = 1" by (auto simp: div_eq_0_iff)
    then show ?thesis by (simp add: bits_1)
  next
    case False
    then have pos: "0 < n div 2" by simp
    from 1 have n0: "n \<noteq> 0" by simp
    from 1(1)[OF n0 pos] have ih: "2 ^ (bits (n div 2) - 1) \<le> n div 2" "n div 2 < 2 ^ bits (n div 2)"
      by simp_all
    have b: "bits n = Suc (bits (n div 2))" using n0 by (subst bits.simps) simp
    have bpos: "0 < bits (n div 2)" using pos by (subst bits.simps) simp
    then have e: "2 ^ bits (n div 2) = 2 * (2::nat) ^ (bits (n div 2) - 1)"
      by (cases "bits (n div 2)") simp_all
    have "2 ^ (bits n - 1) = 2 ^ bits (n div 2)" by (simp add: b)
    also have "\<dots> = 2 * (2::nat) ^ (bits (n div 2) - 1)" by (rule e)
    also have "\<dots> \<le> 2 * (n div 2)" using ih(1) by simp
    also have "\<dots> \<le> n" by simp
    finally have lo: "2 ^ (bits n - 1) \<le> n" .
    have "n < 2 * (n div 2) + 2" by presburger
    also have "\<dots> \<le> 2 * 2 ^ bits (n div 2)" using ih(2) by simp
    also have "\<dots> = 2 ^ bits n" by (simp add: b)
    finally show ?thesis using lo by simp
  qed
qed

lemma round_even_of_int: "round_even (of_int m) = m"
  by (simp add: round_even_def)

lemma double_of_int:
  assumes "\<bar>n\<bar> \<le> 2 ^ 53"
  shows "double (of_int n) = of_int n"
proof (cases "n = 0")
  case True
  then show ?thesis by (simp add: double_def)
next
  case False
  define m where "m = nat \<bar>n\<bar>"
  have mpos: "0 < m" using False by (simp add: m_def)
  have m53: "m \<le> 2 ^ 53" using assms by (simp add: m_def nat_le_iff)
  from bits_bounds[OF mpos] have lo: "2 ^ (bits m - 1) \<le> m" by simp
  have h: "(2::nat) ^ (bits m - 1) \<le> 2 ^ 53" using lo m53 by (rule order_trans)
  have k: "bits m - 1 \<le> 53"
  proof (rule power_le_imp_le_exp)
    show "(1::nat) < 2" by simp
    show "(2::nat) ^ (bits m - 1) \<le> 2 ^ 53" by (rule h)
  qed
  have bpos: "0 < bits m" using mpos by (subst bits.simps) simp
  have one: "(1::rat) \<le> \<bar>of_int n\<bar>" using False
    by (metis abs_ge_zero of_int_abs of_int_1 of_int_le_iff zero_less_abs_iff zless_imp_add1_zle zero_less_iff_neq_zero add_0)
  have fl: "nat \<lfloor>\<bar>of_int n :: rat\<bar>\<rfloor> = m"
    by (metis floor_of_int m_def of_int_abs)
  have il: "ilog2 \<bar>of_int n\<bar> = int (bits m) - 1"
    using one by (simp add: ilog2_def fl)
  show ?thesis
  proof (cases "bits m - 1 = 53")
    case True
    with lo m53 have "m = 2 ^ 53" by simp
    then have "\<bar>n\<bar> = 2 ^ 53" by (simp add: m_def)
    then consider "n = 2 ^ 53" | "n = - (2 ^ 53)" by linarith
    then show ?thesis
    proof cases
      case 1
      then show ?thesis by (simp add: double_eval)
    next
      case 2
      then show ?thesis by (simp add: double_eval)
    qed
  next
    case False
    with k have k52: "bits m - 1 \<le> 52" by simp
    define d where "d = 52 - (bits m - 1)"
    have e: "ilog2 \<bar>of_int n\<bar> - 52 = - int d"
      using k52 bpos by (simp add: il d_def)
    have p: "pow2 (- int d) = 1 / 2 ^ d"
      by (cases "d = 0") (simp_all add: pow2_def)
    have q: "(of_int n :: rat) / pow2 (- int d) = of_int (n * 2 ^ d)"
      by (simp add: p)
    have d52: "d \<le> 52" by (simp add: d_def)
    then have mx: "max (- int d) (- 1074) = - int d" by simp
    have "double (of_int n) = of_int (round_even (of_int (n * 2 ^ d))) * pow2 (- int d)"
      using \<open>n \<noteq> 0\<close> unfolding double_def Let_def e mx q by simp
    also have "\<dots> = of_int (n * 2 ^ d) * (1 / 2 ^ d)"
      by (simp only: round_even_of_int p)
    also have "\<dots> = of_int n" by simp
    finally show ?thesis .
  qed
qed

lemma pow2_pos: "0 < pow2 e"
  by (simp add: pow2_def)

lemma pow2_diff: "pow2 (a - b) = pow2 a / pow2 b"
proof -
  have "pow2 e = 2 powi e" for e
    by (simp add: pow2_def power_int_def inverse_eq_divide power_one_over)
  then show ?thesis by (simp add: power_int_diff)
qed

lemma pow2_ilog2_le:
  assumes "0 < x"
  shows "pow2 (ilog2 x) \<le> x"
proof (cases "1 \<le> x")
  case True
  define n where "n = nat \<lfloor>x\<rfloor>"
  have npos: "0 < n" using True by (simp add: n_def)
  have bpos: "0 < bits n" using npos by (subst bits.simps) simp
  from bits_bounds[OF npos] have "2 ^ (bits n - 1) \<le> n" by simp
  then have "(2::rat) ^ (bits n - 1) \<le> of_nat n"
    by (metis of_nat_le_iff of_nat_numeral of_nat_power)
  also have "of_nat n = (of_int \<lfloor>x\<rfloor> :: rat)" using True by (simp add: n_def)
  also have "\<dots> \<le> x" by simp
  finally have "(2::rat) ^ (bits n - 1) \<le> x" .
  moreover have "pow2 (ilog2 x) = 2 ^ (bits n - 1)"
    using True bpos by (simp add: ilog2_def n_def[symmetric] pow2_def nat_diff_distrib)
  ultimately show ?thesis by simp
next
  case False
  define n where "n = nat \<lfloor>1 / x\<rfloor>"
  define j where "j = int (bits n)"
  have y: "1 < 1 / x" using False assms by simp
  have npos: "0 < n" using y by (simp add: n_def)
  show ?thesis
  proof (cases "x * pow2 (j - 1) = 1")
    case True
    have "ilog2 x = 1 - j" using False True by (simp add: ilog2_def n_def j_def Let_def)
    then have "pow2 (ilog2 x) = pow2 (0 - (j - 1))" by simp
    also have "\<dots> = 1 / pow2 (j - 1)" by (simp only: pow2_diff) (simp add: pow2_def)
    also have "\<dots> = x" using True pow2_pos[of "j - 1"]
      by (simp add: field_simps)
    finally show ?thesis by simp
  next
    case neq: False
    have il: "ilog2 x = - j" using False neq by (simp add: ilog2_def n_def j_def Let_def)
    from bits_bounds[OF npos] have "n < 2 ^ bits n" by simp
    then have "n + 1 \<le> 2 ^ bits n" by simp
    then have "(of_nat (n + 1) :: rat) \<le> 2 ^ bits n"
      by (metis of_nat_le_iff of_nat_numeral of_nat_power)
    moreover have "1 / x < of_int \<lfloor>1 / x\<rfloor> + 1" by linarith
    moreover have "(of_int \<lfloor>1 / x\<rfloor> :: rat) = of_nat n"
    proof -
      have "0 \<le> \<lfloor>1 / x\<rfloor>" using assms by simp
      then show ?thesis by (simp add: n_def)
    qed
    ultimately have "1 / x < 2 ^ bits n" by simp
    then have "1 < x * 2 ^ bits n" using assms by (simp add: field_simps)
    then have "1 / 2 ^ bits n < x" by (simp add: field_simps)
    moreover have "pow2 (- j) = 1 / 2 ^ bits n"
      by (cases "bits n = 0") (simp_all add: pow2_def j_def)
    ultimately show ?thesis by (simp add: il)
  qed
qed

lemma round_even_ge: "of_int \<lfloor>x\<rfloor> \<le> (of_int (round_even x) :: rat)"
  by (simp add: round_even_def Let_def)

lemma round_even_le: "round_even x \<le> \<lfloor>x\<rfloor> + 1"
  by (simp add: round_even_def Let_def)

lemma scaled_ge:
  assumes "0 < x"
  shows "2 ^ 52 \<le> x / pow2 (ilog2 x - 52)"
proof -
  define a where "a = pow2 (ilog2 x)"
  define c where "c = (2::rat) ^ 52"
  have cpos: "0 < c" by (simp add: c_def)
  have apos: "0 < a" unfolding a_def by (rule pow2_pos)
  have "pow2 52 = c" by (simp add: pow2_def c_def)
  then have "pow2 (ilog2 x - 52) = a / c"
    by (simp only: pow2_diff a_def)
  then have eq: "x / pow2 (ilog2 x - 52) = x / a * c" by simp
  have "a \<le> x" unfolding a_def by (rule pow2_ilog2_le[OF assms])
  then have "1 \<le> x / a" using apos by (simp add: field_simps)
  then have "1 * c \<le> x / a * c" using cpos by (metis mult_right_mono less_imp_le)
  then have "c \<le> x / pow2 (ilog2 x - 52)" by (simp only: eq mult_1)
  then show ?thesis by (simp only: c_def)
qed

lemma ilog2_normal:
  assumes pos: "0 < x" and big: "1 \<le> x * 2 ^ 1022"
  shows "- 1022 \<le> ilog2 x"
proof (cases "1 \<le> x")
  case True
  then show ?thesis by (simp add: ilog2_def)
next
  case False
  define n where "n = nat \<lfloor>1 / x\<rfloor>"
  define j where "j = int (bits n)"
  have y: "1 < 1 / x" using False pos by simp
  have npos: "0 < n" using y by (simp add: n_def)
  have fl: "(of_int \<lfloor>1 / x\<rfloor> :: rat) = of_nat n"
  proof -
    have "0 \<le> \<lfloor>1 / x\<rfloor>" using pos by simp
    then show ?thesis by (simp add: n_def)
  qed
  have up: "1 / x \<le> 2 ^ 1022" using big pos by (simp add: field_simps)
  have "(of_nat n :: rat) \<le> 1 / x" unfolding fl[symmetric] by simp
  then have "(of_nat n :: rat) \<le> 2 ^ 1022" using up by (rule order_trans)
  then have n_le: "n \<le> 2 ^ 1022"
    by (metis of_nat_le_iff of_nat_numeral of_nat_power)
  from bits_bounds[OF npos] have lo: "2 ^ (bits n - 1) \<le> n" by simp
  have h: "(2::nat) ^ (bits n - 1) \<le> 2 ^ 1022" using lo n_le by (rule order_trans)
  have k: "bits n - 1 \<le> 1022"
  proof (rule power_le_imp_le_exp)
    show "(1::nat) < 2" by simp
    show "(2::nat) ^ (bits n - 1) \<le> 2 ^ 1022" by (rule h)
  qed
  show ?thesis
  proof (cases "bits n - 1 = 1022")
    case True
    with lo n_le have n_eq: "n = 2 ^ 1022" by simp
    then have "(2::rat) ^ 1022 = of_nat n" by simp
    also have "\<dots> \<le> 1 / x" unfolding fl[symmetric] by simp
    finally have "1 / x = 2 ^ 1022" using up by simp
    then have x: "x * 2 ^ 1022 = 1" using pos by (simp add: field_simps)
    have j: "j = 1023" using True by (simp add: j_def)
    have "x * pow2 (j - 1) = 1" using x by (simp add: j pow2_def)
    then have "ilog2 x = 1 - j" using False by (simp add: ilog2_def n_def j_def Let_def)
    then show ?thesis by (simp add: j)
  next
    case neq: False
    with k have "bits n \<le> 1022" by simp
    then have "j \<le> 1022" by (simp add: j_def)
    moreover have "- j \<le> ilog2 x" using False
      by (simp add: ilog2_def n_def[symmetric] j_def[symmetric] Let_def)
    ultimately show ?thesis by simp
  qed
qed

lemma double_pos:
  assumes "0 < x" and "1 \<le> x * 2 ^ 1022"
  shows "0 < double x"
proof -
  define e where "e = ilog2 x - 52"
  have mx: "max e (- 1074) = e" using ilog2_normal[OF assms] by (simp add: e_def)
  have "(2::rat) ^ 52 \<le> x / pow2 e" unfolding e_def by (rule scaled_ge[OF assms(1)])
  then have "(2::int) ^ 52 \<le> \<lfloor>x / pow2 e\<rfloor>" by (simp add: le_floor_iff)
  then have "0 < \<lfloor>x / pow2 e\<rfloor>" by simp
  then have "(0::rat) < of_int \<lfloor>x / pow2 e\<rfloor>" by simp
  also have "\<dots> \<le> of_int (round_even (x / pow2 e))" by (rule round_even_ge)
  finally have "(0::rat) < of_int (round_even (x / pow2 e)) * pow2 e"
    using pow2_pos[of e] by simp
  then show ?thesis using assms(1) mx by (simp add: double_def Let_def e_def)
qed

lemma double_nonpos:
  assumes "x \<le> 0"
  shows "double x \<le> 0"
proof (cases "x = 0")
  case True
  then show ?thesis by (simp add: double_def)
next
  case False
  define e where "e = max (ilog2 \<bar>x\<bar> - 52) (- 1074)"
  have "x / pow2 e \<le> 0" using assms pow2_pos[of e] by (simp add: divide_le_0_iff)
  then have fl0: "\<lfloor>x / pow2 e\<rfloor> \<le> 0" by (simp add: floor_le_iff)
  have "round_even (x / pow2 e) \<le> 0"
  proof (cases "\<lfloor>x / pow2 e\<rfloor> = 0")
    case True
    then have y0: "x / pow2 e = 0" using \<open>x / pow2 e \<le> 0\<close> by linarith
    show ?thesis unfolding y0 by (simp add: round_even_def)
  next
    case False
    with fl0 have "\<lfloor>x / pow2 e\<rfloor> + 1 \<le> 0" by linarith
    with round_even_le[of "x / pow2 e"] show ?thesis by linarith
  qed
  then have "(of_int (round_even (x / pow2 e)) :: rat) \<le> 0" by simp
  then have "(of_int (round_even (x / pow2 e)) :: rat) * pow2 e \<le> 0"
    using pow2_pos[of e] by (simp add: mult_le_0_iff)
  then show ?thesis using False by (simp add: double_def Let_def e_def)
qed

lemma double_pos_iff:
  assumes "x \<le> 0 \<or> 1 \<le> x * 2 ^ 1022"
  shows "0 < double x \<longleftrightarrow> 0 < x"
proof
  assume h: "0 < double x"
  show "0 < x"
  proof (rule ccontr)
    assume "\<not> 0 < x"
    then have "x \<le> 0" by simp
    from double_nonpos[OF this] h show False by simp
  qed
next
  assume "0 < x"
  with assms show "0 < double x" by (auto intro: double_pos)
qed

lemma double_numeral: "(numeral k :: int) \<le> 2 ^ 53 \<Longrightarrow> double (numeral k) = numeral k"
  using double_of_int[of "numeral k"] by simp

lemma double_neg_numeral:
  "(numeral k :: int) \<le> 2 ^ 53 \<Longrightarrow> double (- numeral k) = - numeral k"
  using double_of_int[of "- numeral k"] by simp

lemma double_one: "double 1 = 1"
  using double_of_int[of 1] by simp

lemma floor_rat_minus_numeral:
  "\<lfloor>- (numeral a / numeral b) :: rat\<rfloor> = - numeral a div numeral b"
  using floor_divide_of_int_eq[of "- numeral a" "numeral b", where ?'a = rat] by simp

lemma double_of_zero: "double 0 = 0"
  by (simp add: double_def)

lemma double_neg_one: "double (- 1) = - 1"
  using double_of_int[of "- 1"] by simp

lemmas double_int = double_of_zero double_one double_neg_one double_numeral double_neg_numeral
  floor_rat_minus_numeral

text \<open>Integers that Numbers hold exactly pass through the conversions unchanged.\<close>

lemma not_overflows_safe: "\<bar>n\<bar> \<le> 2 ^ 53 \<Longrightarrow> \<not> overflows (of_int n)"
proof -
  assume a: "\<bar>n\<bar> \<le> 2 ^ 53"
  have "\<bar>of_int n :: rat\<bar> = of_int \<bar>n\<bar>" by simp
  also have "\<dots> \<le> of_int (2 ^ 53)" using a by (simp only: of_int_le_iff)
  also have "\<dots> < 2 ^ 1024 - 2 ^ 970" by simp
  finally show ?thesis by (simp add: overflows_def)
qed

lemma to_number_safe: "\<bar>n\<bar> \<le> 2 ^ 53 \<Longrightarrow> to_number n = Some (of_int n)"
  by (simp add: to_number_def not_overflows_safe double_of_int)

lemma number_minus_safe:
  "\<bar>a - b\<bar> \<le> 2 ^ 53 \<Longrightarrow> number_minus (Some (of_int a)) (Some (of_int b)) = Some (of_int (a - b))"
  using not_overflows_safe[of "a - b"] double_of_int[of "a - b"]
  by (simp add: number_minus_def)

lemma number_times_safe:
  "\<bar>a * b\<bar> \<le> 2 ^ 53 \<Longrightarrow> number_times (Some (of_int a)) (Some (of_int b)) = Some (of_int (a * b))"
  using not_overflows_safe[of "a * b"] double_of_int[of "a * b"]
  by (simp add: number_times_def)

lemma parseInt_number_safe:
  assumes "\<bar>n\<bar> < 2 ^ 53"
  shows "parseInt_number (Some (of_int n)) = Some (of_int n)"
proof -
  have fl: "\<lfloor>\<bar>of_int n :: rat\<bar>\<rfloor> = \<bar>n\<bar>"
    by (metis floor_of_int of_int_abs)
  have p: "printed_integer \<bar>n\<bar> = \<bar>n\<bar>" using assms by (simp add: printed_integer_def)
  have lt: "\<bar>n\<bar> < 10 ^ 21" using assms by simp
  have d: "double (of_int \<bar>n\<bar>) = of_int \<bar>n\<bar>" using assms by (intro double_of_int) simp
  have "sgn (of_int n :: rat) * of_int \<bar>n\<bar> = of_int n"
    by (simp add: sgn_if)
  then show ?thesis
    unfolding parseInt_number_def option.case Let_def fl p using lt d by simp
qed

lemma sql_unsigned_safe:
  assumes "0 \<le> n" "n < 2 ^ 53"
  shows "sql_unsigned (Some (of_int n)) = Some (nat n)"
proof -
  have p: "printed_integer n = n" using assms by (simp add: printed_integer_def)
  have "n < 10 ^ 21" "n < 2 ^ 64" using assms by simp_all
  then show ?thesis using assms(1) by (simp add: sql_unsigned_def p)
qed

lemmas number_defs = to_number_def number_minus_def number_times_def parseInt_number_def
  sql_unsigned_def printed_integer_def overflows_def parseFloat_def number_of_column_def
  decimal4_def

lemma fold_max_ge: "a \<le> fold max ids (a::int)"
proof (induction ids arbitrary: a)
  case Nil
  show ?case by simp
next
  case (Cons y ys)
  have "a \<le> max y a" by simp
  also have "max y a \<le> fold max ys (max y a)" by (rule Cons.IH)
  finally show ?case by simp
qed

lemma fold_max_mem: "x \<in> set ids \<Longrightarrow> x \<le> fold max ids (a::int)"
proof (induction ids arbitrary: a)
  case Nil
  then show ?case by simp
next
  case (Cons y ys)
  show ?case
  proof (cases "x = y")
    case True
    have "max y a \<le> fold max ys (max y a)" by (rule fold_max_ge)
    with True show ?thesis by simp
  next
    case False
    with Cons show ?thesis by simp
  qed
qed

lemma next_id_fresh: "next_id ids \<notin> set ids"
  using fold_max_mem[of "next_id ids" ids 0] by (auto simp: next_id_def)

lemma find_Some_ex: "\<exists>x \<in> set xs. P x \<Longrightarrow> \<exists>y. find P xs = Some y"
  by (cases "find P xs") (auto simp: find_None_iff)

lemma example_valid:
  "createProductSchema_validate no_conversion example_body =
     Inr (converted no_conversion example_body)"
  by (simp add: createProductSchema_validate_def validate_def all_details_def example_body_def
      joi_string_def joi_number_def string_rules_def presence_def number_base_def
      no_conversion_def max_safe_integer_def is_integer_def math_round_def schema_keys_def
      floor_rat_numeral is_infinity_def overflows_def double_int)

lemma example_converted:
  "converted no_conversion example_body =
     \<lparr> in_name = ''Widget'', in_sku = ''W-1'', in_description = None, in_price = 10,
       in_cost = None, in_weight = None, in_dimensions = None, in_categoryId = None,
       in_supplierId = None, in_lowStockThreshold = 10, in_warehouseId = 1,
       in_initialQuantity = 5 \<rparr>"
  by (simp add: converted_def example_body_def string_value_def number_value_def
      integer_value_def number_base_def or_else_def math_round_def floor_rat_numeral
      double_int)

lemma example_run:
  "fst (create_product no_faults no_conversion example_user example_body example_store) =
     Created 1 ''Widget'' ''W-1'' 10 1 5"
  using example_valid
  by (simp add: create_product_def try_block_def example_converted findOne_def no_faults_def
      example_store_def example_user_def sequelize_transaction_def Product_create_def Let_def
      Inventory_create_def InventoryMovement_create_def commit_def new_product_def next_id_def)

lemma example_commit_raises:
  assumes "f TransactionCommit = Some e"
    and "\<forall>c. c \<noteq> TransactionCommit \<longrightarrow> f c = None"
  shows "create_product f no_conversion example_user example_body example_store =
           (Unanswered, example_store)"
  using example_valid assms
  by (simp add: create_product_def try_block_def example_converted findOne_def
      example_store_def example_user_def sequelize_transaction_def
      Product_create_def Let_def Inventory_create_def InventoryMovement_create_def
      commit_def rollback_def new_product_def next_id_def)

lemma two_violations_details:
  "all_details no_conversion two_violations_body =
     [NumberPositive ''price'', NumberMin ''initialQuantity'' 0]"
  by (simp add: all_details_def two_violations_body_def
      joi_string_def joi_number_def string_rules_def presence_def number_base_def
      no_conversion_def max_safe_integer_def is_integer_def math_round_def schema_keys_def
      floor_rat_numeral is_infinity_def overflows_def double_int)

lemma status_catch_response: "status (catch_response e) \<noteq> 201"
  by (cases e) simp_all

lemma validate_value:
  "createProductSchema_validate rx b = Inr v \<Longrightarrow> v = converted rx b"
  by (auto simp: createProductSchema_validate_def validate_def Let_def split: if_splits)

lemma rollback_and_send_Inr:
  "rollback_and_send r t = Inr (r', db') \<Longrightarrow> r' = r \<and> db' = snapshot t"
  by (auto simp: rollback_and_send_def rollback_def split: if_splits)

lemma rollback_and_send_Inl:
  "rollback_and_send r t = Inl (e, t') \<Longrightarrow> t' = t"
  by (auto simp: rollback_and_send_def rollback_def split: if_splits)

lemma snapshot_Product_create:
  "Product_create f row t = Inr (p, t') \<Longrightarrow> snapshot t' = snapshot t"
  by (auto simp: Product_create_def Let_def split: option.splits)

lemma snapshot_Inventory_create:
  "Inventory_create f row t = Inr (i, t') \<Longrightarrow> snapshot t' = snapshot t"
  by (auto simp: Inventory_create_def Let_def split: option.splits)

lemma snapshot_InventoryMovement_create:
  "InventoryMovement_create f row t = Inr (m, t') \<Longrightarrow> snapshot t' = snapshot t"
  by (auto simp: InventoryMovement_create_def Let_def split: option.splits)

lemma commit_Inl: "commit f t = Inl (e, t') \<Longrightarrow> snapshot t' = snapshot t"
  by (auto simp: commit_def split: if_splits option.splits)

lemma snd_try_block:
  "try_block f rx u b t = Inr (r, db') \<Longrightarrow> status r \<noteq> 201 \<Longrightarrow> db' = snapshot t"
  unfolding try_block_def
  by (auto dest!: rollback_and_send_Inr snapshot_Product_create
      split: sum.splits option.splits prod.splits)

lemma raised_try_block:
  "try_block f rx u b t = Inl (e, t') \<Longrightarrow> snapshot t' = snapshot t"
  unfolding try_block_def
  by (auto dest!: rollback_and_send_Inl snapshot_Product_create snapshot_Inventory_create
      snapshot_InventoryMovement_create commit_Inl
      split: sum.splits option.splits prod.splits)

lemma try_block_created:
  assumes "try_block f rx u b t = Inr (r, db')" and "status r = 201"
  shows "products db' = products (pending t) @
           [(new_product u (converted rx b))\<lparr>p_id := next_id (map p_id (products (pending t)))\<rparr>]"
proof (cases "createProductSchema_validate rx b")
  case (Inl ds)
  with assms show ?thesis by (auto simp: try_block_def dest!: rollback_and_send_Inr)
next
  case (Inr v)
  then have v: "v = converted rx b" by (rule validate_value)
  from assms Inr show ?thesis
    unfolding try_block_def v
    by (auto simp: findOne_def Product_create_def Inventory_create_def
        InventoryMovement_create_def commit_def Let_def
        dest!: rollback_and_send_Inr
        split: sum.splits option.splits prod.splits if_splits)
qed

section \<open>CreateProduct: the rows of a successful call\<close>

text \<open>
  Claim C1. When the body passes the schema, the warehouse named by \<open>warehouseId\<close> is an
  active warehouse of the caller's company, no product carries the SKU and no call on the
  persistence layer raises, the call answers 201 and the stored state is the one before
  with exactly three rows appended: one product of the caller's company; one inventory row
  for that product and the warehouse, with the initial quantity and nothing reserved; one
  movement of type \<open>in\<close> from 0 to the initial quantity, of reference type
  \<open>initial_stock\<close>, by the caller. The product identifier is new, so by the foreign key of
  the inventory table (the fourth hypothesis) no earlier inventory row belongs to it.
\<close>

theorem create_product_persists_three_rows:
  assumes valid: "createProductSchema_validate rx b = Inr v"
    and wh: "\<exists>w \<in> set (warehouses db).
               w_id w = in_warehouseId v \<and> w_companyId w = u_companyId u \<and> w_isActive w"
    and fresh: "\<forall>p \<in> set (products db). p_sku p \<noteq> in_sku v"
    and fk: "\<forall>i \<in> set (inventories db). i_productId i \<in> p_id ` set (products db)"
    and ok: "\<forall>c. f c = None"
  shows "\<exists>p i m.
           create_product f rx u b db =
             (Created (p_id p) (in_name v) (in_sku v) (in_price v) (in_warehouseId v)
                (in_initialQuantity v),
              db\<lparr>products := products db @ [p], inventories := inventories db @ [i],
                 movements := movements db @ [m]\<rparr>) \<and>
           p_companyId p = u_companyId u \<and> p_sku p = in_sku v \<and>
           p_id p \<notin> p_id ` set (products db) \<and>
           i_productId i = p_id p \<and> i_warehouseId i = in_warehouseId v \<and>
           i_quantity i = in_initialQuantity v \<and> i_reservedQuantity i = 0 \<and>
           (\<forall>x \<in> set (inventories db). i_productId x \<noteq> p_id p) \<and>
           m_inventoryId m = i_id i \<and> m_movementType m = MoveIn \<and>
           m_quantity m = in_initialQuantity v \<and> m_previousQuantity m = 0 \<and>
           m_newQuantity m = in_initialQuantity v \<and>
           m_referenceType m = Some ''initial_stock'' \<and> m_userId m = Some (u_id u)"
proof -
  define p where "p = (new_product u v)\<lparr>p_id := next_id (map p_id (products db))\<rparr>"
  define i where "i = (new_inventory p v)\<lparr>i_id := next_id (map i_id (inventories db))\<rparr>"
  define m where "m = (new_movement u p i v)\<lparr>m_id := next_id (map m_id (movements db))\<rparr>"
  obtain w where w: "find (\<lambda>w. w_id w = in_warehouseId v \<and> w_companyId w = u_companyId u \<and>
      w_isActive w) (warehouses db) = Some w"
    using find_Some_ex[OF wh] by blast
  have nop: "find (\<lambda>p. p_sku p = in_sku v) (products db) = None"
    using fresh by (auto simp: find_None_iff)
  have pid: "p_id p \<notin> p_id ` set (products db)"
    using next_id_fresh[of "map p_id (products db)"] by (simp add: p_def)
  have other: "\<forall>x \<in> set (inventories db). i_productId x \<noteq> p_id p"
  proof
    fix x assume "x \<in> set (inventories db)"
    with fk have "i_productId x \<in> p_id ` set (products db)" by blast
    with pid show "i_productId x \<noteq> p_id p" by metis
  qed
  then have noi: "find (\<lambda>i. i_productId i = p_id p \<and> i_warehouseId i = in_warehouseId v)
      (inventories db) = None"
    by (auto simp: find_None_iff)
  have run: "create_product f rx u b db =
      (Created (p_id p) (in_name v) (in_sku v) (in_price v) (in_warehouseId v)
         (in_initialQuantity v),
       db\<lparr>products := products db @ [p], inventories := inventories db @ [i],
          movements := movements db @ [m]\<rparr>)"
    using valid w nop noi ok
    by (simp add: create_product_def try_block_def findOne_def sequelize_transaction_def
        Product_create_def Inventory_create_def InventoryMovement_create_def commit_def
        Let_def p_def[symmetric] i_def[symmetric] m_def[symmetric])
      (simp add: p_def new_product_def)
  have fields: "p_companyId p = u_companyId u \<and> p_sku p = in_sku v \<and>
      i_productId i = p_id p \<and> i_warehouseId i = in_warehouseId v \<and>
      i_quantity i = in_initialQuantity v \<and> i_reservedQuantity i = 0 \<and>
      m_inventoryId m = i_id i \<and> m_movementType m = MoveIn \<and>
      m_quantity m = in_initialQuantity v \<and> m_previousQuantity m = 0 \<and>
      m_newQuantity m = in_initialQuantity v \<and>
      m_referenceType m = Some ''initial_stock'' \<and> m_userId m = Some (u_id u)"
    by (simp add: p_def i_def m_def new_product_def new_inventory_def new_movement_def)
  from run fields pid other show ?thesis by blast
qed

theorem create_product_persists_three_rows_witness:
  "\<exists>p i m.
     create_product no_faults no_conversion example_user example_body example_store =
       (Created (p_id p) ''Widget'' ''W-1'' 10 1 5,
        example_store\<lparr>products := [p], inventories := [i], movements := [m]\<rparr>) \<and>
     p_companyId p = 1 \<and> p_sku p = ''W-1'' \<and>
     i_productId i = p_id p \<and> i_warehouseId i = 1 \<and> i_quantity i = 5 \<and>
     i_reservedQuantity i = 0 \<and>
     m_inventoryId m = i_id i \<and> m_movementType m = MoveIn \<and> m_quantity m = 5 \<and>
     m_previousQuantity m = 0 \<and> m_newQuantity m = 5 \<and>
     m_referenceType m = Some ''initial_stock'' \<and> m_userId m = Some 7"
proof -
  have wh: "\<exists>w \<in> set (warehouses example_store).
      w_id w = in_warehouseId (converted no_conversion example_body) \<and>
      w_companyId w = u_companyId example_user \<and> w_isActive w"
    by (simp add: example_converted example_store_def example_user_def)
  have fresh: "\<forall>p \<in> set (products example_store).
      p_sku p \<noteq> in_sku (converted no_conversion example_body)"
    by (simp add: example_store_def)
  have fk: "\<forall>i \<in> set (inventories example_store).
      i_productId i \<in> p_id ` set (products example_store)"
    by (simp add: example_store_def)
  have ok: "\<forall>c. no_faults c = None"
    by (simp add: no_faults_def)
  from create_product_persists_three_rows[OF example_valid wh fresh fk ok]
  show ?thesis
    by (simp add: example_converted example_user_def) (simp add: example_store_def)
qed

section \<open>CreateProduct: a failed call persists nothing\<close>

text \<open>
  Claim C2. Whatever makes the call fail (the schema, the warehouse check, the SKU check,
  the duplicate-inventory check, an exception of any read or write, or of the commit),
  the response is not 201 and the stored state after the call is the state before it:
  every early return and the \<open>catch\<close> roll the transaction back, and a commit that raises
  stores nothing. In the run below the commit raises: the rollback of the \<open>catch\<close> then
  raises in its turn, no response is sent, and the stored state is unchanged.
\<close>

theorem failed_create_product_persists_nothing:
  "status (fst (create_product f rx u b db)) \<noteq> 201 \<Longrightarrow> snd (create_product f rx u b db) = db"
proof (cases "try_block f rx u b (sequelize_transaction db)")
  case (Inl et)
  obtain e t where et: "et = (e, t)" by (cases et)
  with Inl have "snapshot t = snapshot (sequelize_transaction db)"
    using raised_try_block by blast
  then have "snapshot t = db" by (simp add: sequelize_transaction_def)
  with Inl et show ?thesis
    by (simp add: create_product_def rollback_def)
next
  case (Inr rs)
  assume st: "status (fst (create_product f rx u b db)) \<noteq> 201"
  obtain r db' where rs: "rs = (r, db')" by (cases rs)
  with Inr st have "status r \<noteq> 201" by (simp add: create_product_def)
  with Inr rs have "db' = snapshot (sequelize_transaction db)" using snd_try_block by blast
  then have "db' = db" by (simp add: sequelize_transaction_def)
  with Inr rs show ?thesis by (simp add: create_product_def)
qed

theorem failed_create_product_persists_nothing_witness:
  "status (fst (create_product commit_fails no_conversion example_user example_body
      example_store)) \<noteq> 201 \<and>
   fst (create_product commit_fails no_conversion example_user example_body example_store) =
     Unanswered \<and>
   snd (create_product commit_fails no_conversion example_user example_body example_store) =
     example_store"
proof -
  let ?run = "create_product commit_fails no_conversion example_user example_body example_store"
  have "?run = (Unanswered, example_store)"
    by (rule example_commit_raises[of _ OtherError]) (simp_all add: commit_fails_def)
  then have r: "fst ?run = Unanswered" by simp
  then have "status (fst ?run) \<noteq> 201" by simp
  from failed_create_product_persists_nothing[OF this] r show ?thesis by simp
qed

section \<open>CreateProduct: the loser of a race on the SKU\<close>




section \<open>CreateProduct: what a validation error reports\<close>

text \<open>
  Claim C8, as stated, asks for one message per violated field. The handler validates
  with Joi's defaults, which stop at the first violation: the body below violates two
  fields (a negative price and a negative initial quantity) and the response carries the
  message about the price alone.
\<close>

theorem validation_error_lists_every_violated_field_counterexample:
  "violated_fields no_conversion two_violations_body = [''price'', ''initialQuantity''] \<and>
   create_product no_faults no_conversion example_user two_violations_body example_store =
     (ValidationFailed [NumberPositive ''price''], example_store)"
  by (simp add: violated_fields_def two_violations_details create_product_def try_block_def
      createProductSchema_validate_def validate_def rollback_and_send_def rollback_def
      sequelize_transaction_def)

text \<open>
  Claim C8, amended. For every call whose body violates the schema, on one field or on
  several, the validation error holds exactly one message: the first violation in the
  order of the schema (unknown keys last). Nothing is stored.
\<close>

theorem validation_error_holds_first_violation:
  assumes "all_details rx b \<noteq> []"
  shows "create_product f rx u b db = (ValidationFailed [hd (all_details rx b)], db)"
  using assms
  by (simp add: create_product_def try_block_def createProductSchema_validate_def validate_def
      rollback_and_send_def rollback_def sequelize_transaction_def take_Suc)

theorem validation_error_holds_first_violation_witness:
  "all_details no_conversion two_violations_body \<noteq> [] \<and>
   create_product no_faults no_conversion example_user two_violations_body example_store =
     (ValidationFailed [NumberPositive ''price''], example_store)"
proof -
  have h: "all_details no_conversion two_violations_body \<noteq> []"
    by (simp add: two_violations_details)
  from validation_error_holds_first_violation[OF h] h show ?thesis
    by (simp add: two_violations_details)
qed

section \<open>CreateProduct: the threshold of a created product\<close>

text \<open>
  Claim C10. A product created by the operation is stored with a threshold that is not
  NULL: the value of the body, or 10 when the body has none. The threshold that the alert
  queries compute for it, \<open>COALESCE(p.low_stock_threshold, pc.low_stock_threshold, 10)\<close>, is
  therefore its own stored threshold whatever category is joined, so neither the default
  of a category nor the constant is ever reached for it.
\<close>

theorem created_product_uses_own_threshold:
  assumes "create_product f rx u b db = (r, db')" and "status r = 201"
  shows "\<exists>p. products db' = products db @ [p] \<and>
           p_lowStockThreshold p = Some (in_lowStockThreshold (converted rx b)) \<and>
           (map_of b ''lowStockThreshold'' = None \<longrightarrow> p_lowStockThreshold p = Some 10) \<and>
           (\<forall>pc. threshold p pc = in_lowStockThreshold (converted rx b))"
proof -
  define p where
    "p = (new_product u (converted rx b))\<lparr>p_id := next_id (map p_id (products db))\<rparr>"
  have thr: "p_lowStockThreshold p = Some (in_lowStockThreshold (converted rx b))"
    by (simp add: p_def new_product_def)
  have dflt: "map_of b ''lowStockThreshold'' = None \<longrightarrow>
      in_lowStockThreshold (converted rx b) = 10"
    by (simp add: converted_def integer_value_def number_value_def or_else_def)
  have own: "\<forall>pc. threshold p pc = in_lowStockThreshold (converted rx b)"
    by (simp add: threshold_def coalesce3_def thr)
  have tb: "try_block f rx u b (sequelize_transaction db) = Inr (r, db')"
    using assms by (cases "try_block f rx u b (sequelize_transaction db)")
      (auto simp: create_product_def Let_def status_catch_response split: sum.splits)
  have "products db' = products db @ [p]"
    using try_block_created[OF tb assms(2)] by (simp add: p_def sequelize_transaction_def)
  with thr dflt own show ?thesis by auto
qed

theorem created_product_uses_own_threshold_witness:
  "status (fst (create_product no_faults no_conversion example_user example_body
      example_store)) = 201 \<and>
   (\<exists>p. products (snd (create_product no_faults no_conversion example_user example_body
            example_store)) = products example_store @ [p] \<and>
        p_lowStockThreshold p = Some 10 \<and> (\<forall>pc. threshold p pc = 10))"
proof -
  let ?run = "create_product no_faults no_conversion example_user example_body example_store"
  have run: "?run = (fst ?run, snd ?run)" by simp
  have st: "status (fst ?run) = 201" by (simp add: example_run)
  from created_product_uses_own_threshold[OF run st] st show ?thesis
    by (auto simp: example_converted)
qed

section \<open>Low-stock alerts: the qualifying candidates\<close>

lemmas row_defs = main_warehouse_def acme_def electronics_def widget_def gadget_def gizmo_def
  widget_stock_def gadget_stock_def gizmo_stock_def

lemmas query_defs = from_clause_def from_clause_suppliers_def left_join_def where_clause_def
  threshold_def coalesce3_def category_threshold_def current_stock_def has_recent_sales_def
  sales_since_def select_row_def avg_daily_sales_def daily_sales_def sql_avg_def or_else_def
  low_stock_candidates_def low_stock_rows_def

lemma set_left_join: "set (left_join ms) = (if ms = [] then {None} else Some ` set ms)"
  by (simp add: left_join_def)

lemma left_join_nonempty: "\<exists>x. x \<in> set (left_join ms)"
  by (cases ms) (auto simp: left_join_def)

lemma set_from_clause:
  "(p, i, w, pc) \<in> set (from_clause db) \<longleftrightarrow>
     p \<in> set (products db) \<and> i \<in> set (inventories db) \<and> p_id p = i_productId i \<and>
     w \<in> set (warehouses db) \<and> i_warehouseId i = w_id w \<and>
     pc \<in> set (left_join [c \<leftarrow> categories db. p_categoryId p = Some (c_id c)])"
  by (auto simp: from_clause_def)

lemma set_from_clause_suppliers:
  "(j, s) \<in> set (from_clause_suppliers db) \<longleftrightarrow>
     j \<in> set (from_clause db) \<and>
     s \<in> set (left_join [s \<leftarrow> suppliers db. p_supplierId (fst j) = Some (s_id s)])"
  by (auto simp: from_clause_suppliers_def)

lemma find_distinct_key:
  "distinct (map f xs) \<Longrightarrow> x \<in> set xs \<Longrightarrow> find (\<lambda>c. f c = f x) xs = Some x"
  by (induction xs) (auto simp: image_iff)

lemma threshold_effective:
  assumes d: "distinct (map c_id (categories db))"
    and pc: "pc \<in> set (left_join [c \<leftarrow> categories db. p_categoryId p = Some (c_id c)])"
  shows "threshold p pc = effective_threshold db p"
proof (cases pc)
  case None
  with pc have none: "[c \<leftarrow> categories db. p_categoryId p = Some (c_id c)] = []"
    by (auto simp: set_left_join split: if_splits)
  have "\<And>k. p_categoryId p = Some k \<Longrightarrow> find (\<lambda>c. c_id c = k) (categories db) = None"
    using none by (auto simp: find_None_iff filter_empty_conv)
  with None show ?thesis
    by (auto simp: threshold_def effective_threshold_def coalesce3_def category_threshold_def
        split: option.splits)
next
  case (Some c)
  with pc have c: "c \<in> set (categories db)" "p_categoryId p = Some (c_id c)"
    by (auto simp: set_left_join split: if_splits)
  have "find (\<lambda>x. c_id x = c_id c) (categories db) = Some c"
    using find_distinct_key[OF d c(1)] .
  with Some c show ?thesis
    by (auto simp: threshold_def effective_threshold_def coalesce3_def category_threshold_def
        split: option.splits)
qed

lemma has_recent_sales_iff:
  "has_recent_sales db pid wid d \<longleftrightarrow>
     (\<exists>sd \<in> set (sales db). sd_productId sd = pid \<and> sd_warehouseId sd = wid \<and> d \<le> sd_saleDate sd)"
  by (auto simp: has_recent_sales_def sales_since_def filter_empty_conv)

lemma candidate_qualifies:
  assumes d: "distinct (map c_id (categories db))"
    and c: "((p, i, w, pc), s) \<in> set (low_stock_candidates companyId (today - 30) db)"
  shows "p \<in> set (products db) \<and> i \<in> set (inventories db) \<and> w \<in> set (warehouses db) \<and>
         i_productId i = p_id p \<and> i_warehouseId i = w_id w \<and> qualifies companyId today db p w i"
proof -
  from c have fc: "(p, i, w, pc) \<in> set (from_clause db)"
    and wc: "where_clause companyId (today - 30) db (p, i, w, pc)"
    by (auto simp: low_stock_candidates_def set_from_clause_suppliers)
  from fc have pc: "pc \<in> set (left_join [c \<leftarrow> categories db. p_categoryId p = Some (c_id c)])"
    by (simp add: set_from_clause)
  from wc show ?thesis
    using fc threshold_effective[OF d pc]
    by (simp add: set_from_clause where_clause_def qualifies_def current_stock_def
        has_recent_sales_iff)
qed

lemma qualifying_is_candidate:
  assumes d: "distinct (map c_id (categories db))"
    and r: "p \<in> set (products db) \<and> i \<in> set (inventories db) \<and> w \<in> set (warehouses db) \<and>
         i_productId i = p_id p \<and> i_warehouseId i = w_id w \<and> qualifies companyId today db p w i"
  shows "\<exists>pc s. ((p, i, w, pc), s) \<in> set (low_stock_candidates companyId (today - 30) db)"
proof -
  obtain pc where pc: "pc \<in> set (left_join [c \<leftarrow> categories db. p_categoryId p = Some (c_id c)])"
    using left_join_nonempty by blast
  obtain s where s: "s \<in> set (left_join [s \<leftarrow> suppliers db. p_supplierId p = Some (s_id s)])"
    using left_join_nonempty by blast
  from r pc have fc: "(p, i, w, pc) \<in> set (from_clause db)"
    by (simp add: set_from_clause)
  from r have "where_clause companyId (today - 30) db (p, i, w, pc)"
    using threshold_effective[OF d pc]
    by (simp add: where_clause_def qualifies_def current_stock_def has_recent_sales_iff)
  with fc s have "((p, i, w, pc), s) \<in> set (low_stock_candidates companyId (today - 30) db)"
    by (simp add: low_stock_candidates_def set_from_clause_suppliers)
  then show ?thesis by blast
qed

text \<open>
  Claim C3. A product, a warehouse and an inventory row that links them are a candidate of
  the alert query if and only if: the product and the warehouse belong to the requested
  company and are active; the available stock (quantity minus reserved quantity) is at
  most the effective threshold (the product's own threshold when set, else the default of
  the linked category when set, else 10); and some sales row of that product in that
  warehouse has a sale date not earlier than the day of the evaluation minus 30 days.
  Category identifiers are a primary key, so the linked category is unique.
\<close>

theorem low_stock_candidate_iff:
  assumes "distinct (map c_id (categories db))"
  shows "(\<exists>pc s. ((p, i, w, pc), s) \<in> set (low_stock_candidates companyId (today - 30) db)) \<longleftrightarrow>
         (p \<in> set (products db) \<and> i \<in> set (inventories db) \<and> w \<in> set (warehouses db) \<and>
          i_productId i = p_id p \<and> i_warehouseId i = w_id w \<and> qualifies companyId today db p w i)"
proof
  assume "\<exists>pc s. ((p, i, w, pc), s) \<in> set (low_stock_candidates companyId (today - 30) db)"
  then obtain pc s where
    "((p, i, w, pc), s) \<in> set (low_stock_candidates companyId (today - 30) db)"
    by blast
  with assms show "p \<in> set (products db) \<and> i \<in> set (inventories db) \<and>
      w \<in> set (warehouses db) \<and> i_productId i = p_id p \<and> i_warehouseId i = w_id w \<and>
      qualifies companyId today db p w i"
    by (rule candidate_qualifies)
next
  assume "p \<in> set (products db) \<and> i \<in> set (inventories db) \<and> w \<in> set (warehouses db) \<and>
      i_productId i = p_id p \<and> i_warehouseId i = w_id w \<and> qualifies companyId today db p w i"
  with assms
  show "\<exists>pc s. ((p, i, w, pc), s) \<in> set (low_stock_candidates companyId (today - 30) db)"
    by (rule qualifying_is_candidate)
qed

theorem low_stock_candidate_iff_witness:
  "distinct (map c_id (categories alerts_store)) \<and>
   (\<exists>pc s. ((widget, widget_stock, main_warehouse, pc), s) \<in>
      set (low_stock_candidates 1 (100 - 30) alerts_store)) \<and>
   qualifies 1 100 alerts_store widget main_warehouse widget_stock"
proof -
  have d: "distinct (map c_id (categories alerts_store))"
    by (simp add: alerts_store_def)
  have q: "widget \<in> set (products alerts_store) \<and> widget_stock \<in> set (inventories alerts_store) \<and>
      main_warehouse \<in> set (warehouses alerts_store) \<and>
      i_productId widget_stock = p_id widget \<and> i_warehouseId widget_stock = w_id main_warehouse \<and>
      qualifies 1 100 alerts_store widget main_warehouse widget_stock"
    by (simp add: alerts_store_def qualifies_def effective_threshold_def row_defs)
  from low_stock_candidate_iff[OF d, of widget widget_stock main_warehouse 1 100] q d
  show ?thesis by blast
qed

section \<open>Low-stock alerts: the supplier of an alert\<close>

lemma days_until_stockout_unfold:
  "days_until_stockout stock avg =
     max 0 (if 0 < parseFloat avg then \<lfloor>double (number_of_column stock / parseFloat avg)\<rfloor>
            else if 0 < number_of_column stock then 90 else 0)"
  by (simp add: days_until_stockout_def Let_def)

lemmas stockout_eval = days_until_stockout_unfold parseFloat_def number_of_column_def
  decimal4_def double_eval

lemma alerts_store_rows:
  "low_stock_rows 1 70 l off alerts_store =
     map (select_row 70 alerts_store)
       [((gizmo, gizmo_stock, main_warehouse, Some electronics), None),
        ((gadget, gadget_stock, main_warehouse, Some electronics), None),
        ((widget, widget_stock, main_warehouse, Some electronics), Some acme)]"
  by (simp add: query_defs alerts_store_def row_defs decimal4_def floor_rat_numeral)

lemma gizmo_alert:
  "to_alert (select_row 70 alerts_store
      ((gizmo, gizmo_stock, main_warehouse, Some electronics), None)) =
     \<lparr> a_product_id = 3, a_product_name = ''Gizmo'', a_sku = ''Z-1'', a_warehouse_id = 1,
       a_warehouse_name = ''Main'', a_current_stock = 0, a_threshold = 5,
       a_days_until_stockout = 0, a_supplier = None \<rparr>"
  by (simp add: query_defs alerts_store_def row_defs to_alert_def supplier_of_def stockout_eval)

lemma gadget_alert:
  "to_alert (select_row 70 alerts_store
      ((gadget, gadget_stock, main_warehouse, Some electronics), None)) =
     \<lparr> a_product_id = 2, a_product_name = ''Gadget'', a_sku = ''G-1'', a_warehouse_id = 1,
       a_warehouse_name = ''Main'', a_current_stock = 3, a_threshold = 15,
       a_days_until_stockout = 1, a_supplier = None \<rparr>"
  by (simp add: query_defs alerts_store_def row_defs to_alert_def supplier_of_def stockout_eval)

lemma widget_alert:
  "to_alert (select_row 70 alerts_store
      ((widget, widget_stock, main_warehouse, Some electronics), Some acme)) =
     \<lparr> a_product_id = 1, a_product_name = ''Widget'', a_sku = ''W-1'', a_warehouse_id = 1,
       a_warehouse_name = ''Main'', a_current_stock = 8, a_threshold = 20,
       a_days_until_stockout = 3,
       a_supplier = Some \<lparr> si_id = 1, si_name = Some ''Acme'',
         si_contact_email = Some ''orders@acme.test'', si_lead_time_days = Some 7 \<rparr> \<rparr>"
  by (simp add: query_defs alerts_store_def row_defs to_alert_def supplier_of_def stockout_eval)

lemma alerts_store_alerts:
  "alerts_of (low_stock_alerts example_user 1 None None 100 alerts_store) =
     [\<lparr> a_product_id = 3, a_product_name = ''Gizmo'', a_sku = ''Z-1'', a_warehouse_id = 1,
        a_warehouse_name = ''Main'', a_current_stock = 0, a_threshold = 5,
        a_days_until_stockout = 0, a_supplier = None \<rparr>,
      \<lparr> a_product_id = 2, a_product_name = ''Gadget'', a_sku = ''G-1'', a_warehouse_id = 1,
        a_warehouse_name = ''Main'', a_current_stock = 3, a_threshold = 15,
        a_days_until_stockout = 1, a_supplier = None \<rparr>,
      \<lparr> a_product_id = 1, a_product_name = ''Widget'', a_sku = ''W-1'', a_warehouse_id = 1,
        a_warehouse_name = ''Main'', a_current_stock = 8, a_threshold = 20,
        a_days_until_stockout = 3,
        a_supplier = Some \<lparr> si_id = 1, si_name = Some ''Acme'',
          si_contact_email = Some ''orders@acme.test'', si_lead_time_days = Some 7 \<rparr> \<rparr>]"
  by (simp add: alerts_of_def low_stock_alerts_def example_user_def Let_def lowStockQuery_def
      number_defs double_int or_else_def alerts_store_rows gizmo_alert gadget_alert widget_alert)

text \<open>
  Claim C9, as stated, leaves the supplier field null for a product whose supplier is
  inactive. The query joins the suppliers on the identifier alone: in the store below the
  only supplier is inactive, the third alert is for the product linked to it, and its
  supplier field is populated.
\<close>

theorem inactive_supplier_is_reported_counterexample:
  "s_isActive acme = False \<and> suppliers alerts_store = [acme] \<and>
   p_supplierId widget = Some (s_id acme) \<and>
   map a_product_id (alerts_of (low_stock_alerts example_user 1 None None 100 alerts_store)) =
     [3, 2, 1] \<and>
   map a_supplier (alerts_of (low_stock_alerts example_user 1 None None 100 alerts_store)) =
     [None, None,
      Some \<lparr> si_id = 1, si_name = Some ''Acme'', si_contact_email = Some ''orders@acme.test'',
             si_lead_time_days = Some 7 \<rparr>]"
  by (simp add: alerts_store_alerts) (simp add: acme_def widget_def alerts_store_def)

text \<open>
  Claim C9, amended. The supplier field of an alert is populated if and only if the
  product is linked to a supplier row (with an identifier other than 0), whether that
  supplier is active or not; it then holds the identifier, name, contact email and lead
  time of that supplier. When the product has no linked supplier the field is null.
\<close>

theorem alert_supplier_field:
  assumes "((p, i, w, pc), s) \<in> set (low_stock_candidates companyId d db)"
  shows "(a_supplier (to_alert (select_row d db ((p, i, w, pc), s))) \<noteq> None \<longleftrightarrow>
            (\<exists>sup \<in> set (suppliers db). p_supplierId p = Some (s_id sup) \<and> s_id sup \<noteq> 0)) \<and>
         (\<forall>sup. s = Some sup \<and> s_id sup \<noteq> 0 \<longrightarrow>
            sup \<in> set (suppliers db) \<and> p_supplierId p = Some (s_id sup) \<and>
            a_supplier (to_alert (select_row d db ((p, i, w, pc), s))) =
              Some \<lparr> si_id = s_id sup, si_name = Some (s_name sup),
                     si_contact_email = s_contactEmail sup,
                     si_lead_time_days = s_leadTimeDays sup \<rparr>)"
proof -
  from assms have s: "s \<in> set (left_join [x \<leftarrow> suppliers db. p_supplierId p = Some (s_id x)])"
    by (simp add: low_stock_candidates_def set_from_clause_suppliers)
  show ?thesis
  proof (cases s)
    case None
    with s have "[x \<leftarrow> suppliers db. p_supplierId p = Some (s_id x)] = []"
      by (auto simp: set_left_join split: if_splits)
    then have "\<not> (\<exists>sup \<in> set (suppliers db). p_supplierId p = Some (s_id sup))"
      by (auto simp: filter_empty_conv)
    with None show ?thesis
      by (auto simp: to_alert_def select_row_def supplier_of_def)
  next
    case (Some sup)
    with s have "sup \<in> set (suppliers db)" "p_supplierId p = Some (s_id sup)"
      by (auto simp: set_left_join split: if_splits)
    with Some show ?thesis
      by (auto simp: to_alert_def select_row_def supplier_of_def)
  qed
qed

theorem alert_supplier_field_witness:
  "((widget, widget_stock, main_warehouse, Some electronics), Some acme) \<in>
     set (low_stock_candidates 1 70 alerts_store) \<and>
   a_supplier (to_alert (select_row 70 alerts_store
     ((widget, widget_stock, main_warehouse, Some electronics), Some acme))) =
     Some \<lparr> si_id = 1, si_name = Some ''Acme'', si_contact_email = Some ''orders@acme.test'',
            si_lead_time_days = Some 7 \<rparr>"
proof -
  have c: "((widget, widget_stock, main_warehouse, Some electronics), Some acme) \<in>
     set (low_stock_candidates 1 70 alerts_store)"
    by (simp add: query_defs alerts_store_def row_defs)
  have "s_id acme \<noteq> 0" by (simp add: acme_def)
  with alert_supplier_field[OF c] c show ?thesis
    by (simp add: acme_def)
qed


end
